theory Spec2Isabelle
  imports Complex_Main
begin

section \<open>Conventions of the embedding\<close>

text \<open>
  The numerical engine of ZarcFit (\<^verbatim>\<open>ModelCircuits.py\<close>, \<^verbatim>\<open>FitBuilder.py\<close>,
  \<^verbatim>\<open>TimeDomainBuilder.py\<close>, \<^verbatim>\<open>Calculator.py\<close>) is embedded over exact arithmetic:
  a Python or numpy float is a \<^typ>\<open>real\<close>, a complex number is a \<^typ>\<open>complex\<close>,
  a numpy array is a list, a parameter dictionary is a map from strings to reals.
  Rounding, overflow and the IEEE values inf and nan have no counterpart here.

  Every exception of the source is a value: a call returns \<open>Inl e\<close> when the source
  raises \<open>e\<close> and \<open>Inr v\<close> when it returns \<open>v\<close>. Where the source divides
  by zero the model returns \<open>ZeroDivisionError\<close> (what Python scalars raise; numpy
  scalars and arrays yield inf or nan with a warning there), and where numpy would
  produce inf or nan without dividing the model returns \<open>NonFinite\<close>. An exception
  abandons the call: the attributes that an object has updated up to that point are not
  tracked further, and a call that returns gives back the updated object with its value.
\<close>

datatype py_error = ValueError | KeyError | IndexError | ZeroDivisionError | NonFinite

type_synonym 'a result = "py_error + 'a"

type_synonym params = "string \<Rightarrow> real option"

definition rbind :: "'a result \<Rightarrow> ('a \<Rightarrow> 'b result) \<Rightarrow> 'b result" where
  "rbind m f = (case m of Inl e \<Rightarrow> Inl e | Inr x \<Rightarrow> f x)"

text \<open>A list comprehension whose body may raise: the first failure ends it.\<close>

fun mapM :: "('a \<Rightarrow> 'b result) \<Rightarrow> 'a list \<Rightarrow> 'b list result" where
  "mapM f [] = Inr []"
| "mapM f (x # xs) = rbind (f x) (\<lambda>y. rbind (mapM f xs) (\<lambda>ys. Inr (y # ys)))"

text \<open>\<^verbatim>\<open>d[key]\<close> on a dictionary.\<close>

definition lookup :: "params \<Rightarrow> string \<Rightarrow> real result" where
  "lookup d k = (case d k of None \<Rightarrow> Inl KeyError | Some v \<Rightarrow> Inr v)"

text \<open>\<^verbatim>\<open>xs[i]\<close> on an array, for a non-negative index.\<close>

definition item :: "'a list \<Rightarrow> nat \<Rightarrow> 'a result" where
  "item xs i = (if i < length xs then Inr (xs ! i) else Inl IndexError)"

text \<open>\<^verbatim>\<open>xs[i] = v\<close> on an array, for a non-negative index.\<close>

definition set_item :: "'a list \<Rightarrow> nat \<Rightarrow> 'a \<Rightarrow> 'a list result" where
  "set_item xs i v = (if i < length xs then Inr (xs[i := v]) else Inl IndexError)"

definition py_div :: "real \<Rightarrow> real \<Rightarrow> real result" where
  "py_div a b = (if b = 0 then Inl ZeroDivisionError else Inr (a / b))"

definition py_cdiv :: "complex \<Rightarrow> complex \<Rightarrow> complex result" where
  "py_cdiv a b = (if b = 0 then Inl ZeroDivisionError else Inr (a / b))"

text \<open>
  \<^verbatim>\<open>x ** p\<close> on floats. Anything to the power 0 is 1, also 0; a positive base is the
  real power; 0 to a negative power divides by zero. The source only calls it with a
  base that its guards have made non-negative; a negative base is finite exactly for
  an integer exponent.
\<close>

definition float_pow :: "real \<Rightarrow> real \<Rightarrow> real result" where
  "float_pow x p =
     (if p = 0 then Inr 1
      else if 0 < x then Inr (x powr p)
      else if x = 0 then (if 0 < p then Inr 0 else Inl ZeroDivisionError)
      else if p = of_int \<lfloor>p\<rfloor>
        then Inr ((if even \<lfloor>p\<rfloor> then 1 else - 1) * ((- x) powr p))
        else Inl NonFinite)"

text \<open>
  \<^verbatim>\<open>(1j) ** p\<close> for a real exponent: the unit vector at the angle \<open>p\<close> quarter
  turns.
\<close>

definition j_pow :: "real \<Rightarrow> complex" where
  "j_pow p = cis (p * (pi / 2))"

section \<open>ModelCircuits.py: the primitives\<close>

definition inductor :: "real \<Rightarrow> real \<Rightarrow> complex result" where
  "inductor freq linf =
     (if linf = 0 then Inl ValueError
      else if freq < 0 then Inl ValueError
      else Inr (complex_of_real ((2 * pi * freq) * linf) * \<i>))"

definition q_from_f0 :: "real \<Rightarrow> real \<Rightarrow> real \<Rightarrow> real result" where
  "q_from_f0 r f0 p =
     (if r = 0 then Inl ValueError
      else if f0 \<le> 0 then Inl ValueError
      else rbind (float_pow (2 * pi * f0) p) (\<lambda>w. py_div 1 (r * w)))"

definition cpe :: "real \<Rightarrow> real \<Rightarrow> real \<Rightarrow> real \<Rightarrow> complex result" where
  "cpe freq Qc pf p_i =
     (if Qc = 0 then Inl ValueError
      else if freq < 0 then Inl ValueError
      else if freq = 0 \<and> 0 < pf then Inl ValueError
      else if freq = 0 \<and> pf < 0 then Inl ValueError
      else
        let phase_factor = j_pow p_i in
        rbind (float_pow (2 * pi * freq) pf) (\<lambda>omega_exp.
        py_cdiv 1 (complex_of_real Qc * phase_factor * complex_of_real omega_exp)))"

definition parallel :: "complex \<Rightarrow> complex \<Rightarrow> complex result" where
  "parallel z_1 z_2 =
     (if z_1 = 0 \<or> z_2 = 0 then Inl ValueError
      else
        rbind (py_cdiv 1 z_1) (\<lambda>a.
        rbind (py_cdiv 1 z_2) (\<lambda>b.
        py_cdiv 1 (a + b))))"

text \<open>
  \<^verbatim>\<open>_parallel_arrays\<close> works on two numpy arrays. Its callers pass arrays of the
  same length; numpy's broadcasting of a one-element array against a longer one is
  kept, and other length mismatches raise \<open>ValueError\<close>.
\<close>

definition broadcast2 :: "('a \<Rightarrow> 'b \<Rightarrow> 'c result) \<Rightarrow> 'a list \<Rightarrow> 'b list \<Rightarrow> 'c list result" where
  "broadcast2 f xs ys =
     (if length xs = length ys then mapM (\<lambda>(x, y). f x y) (zip xs ys)
      else if length xs = 1 then mapM (\<lambda>y. f (hd xs) y) ys
      else if length ys = 1 then mapM (\<lambda>x. f x (hd ys)) xs
      else Inl ValueError)"

definition parallel_arrays :: "complex list \<Rightarrow> complex list \<Rightarrow> complex list result" where
  "parallel_arrays z_1 z_2 =
     (if (\<exists>z \<in> set z_1. z = 0) \<or> (\<exists>z \<in> set z_2. z = 0) then Inl ValueError
      else
        rbind (mapM (py_cdiv 1) z_1) (\<lambda>a.
        rbind (mapM (py_cdiv 1) z_2) (\<lambda>b.
        rbind (broadcast2 (\<lambda>x y. Inr (x + y)) a b) (\<lambda>denominator.
        mapM (py_cdiv 1) denominator))))"

section \<open>ModelCircuits.py: the circuit object and its two topologies\<close>

text \<open>
  The attributes of \<^verbatim>\<open>ModelCircuitParent\<close> that the computations read and write.
  The two subclasses differ only in \<^verbatim>\<open>run_rock\<close> and \<^verbatim>\<open>run_model\<close>; the
  subclass is the \<open>topology\<close> argument of these two functions.
\<close>

record circuit =
  negative_rinf :: bool
  q :: params
  par_second :: params
  par_other_sec :: params

datatype topology = Series | Parallel

text \<open>
  \<^verbatim>\<open>_calculate_secondary_parameters\<close>, in the order of its statements: the three Q
  values, then the parallel-equivalent resistances and Q values, then the capacitances.
  The three dictionaries are written when all entries are computed; the source writes
  each entry as soon as it is computed, which differs only if a later entry raises.
\<close>

definition calculate_secondary_parameters :: "circuit \<Rightarrow> params \<Rightarrow> circuit result" where
  "calculate_secondary_parameters c par =
     rbind (lookup par ''Rh'') (\<lambda>Rh.
     rbind (lookup par ''Fh'') (\<lambda>Fh.
     rbind (lookup par ''Ph'') (\<lambda>Ph.
     rbind (q_from_f0 Rh Fh Ph) (\<lambda>Qh.
     rbind (lookup par ''Rm'') (\<lambda>Rm.
     rbind (lookup par ''Fm'') (\<lambda>Fm.
     rbind (lookup par ''Pm'') (\<lambda>Pm.
     rbind (q_from_f0 Rm Fm Pm) (\<lambda>Qm.
     rbind (lookup par ''Rl'') (\<lambda>Rl.
     rbind (lookup par ''Fl'') (\<lambda>Fl.
     rbind (lookup par ''Pl'') (\<lambda>Pl.
     rbind (q_from_f0 Rl Fl Pl) (\<lambda>Ql.
     rbind (lookup par ''Rinf'') (\<lambda>Rinf.
     let R0 = Rinf + Rh + Rm + Rl in
     rbind (py_div (Rinf * (Rinf + Rh)) Rh) (\<lambda>pRh.
     rbind (py_div Rh (Rinf + Rh)) (\<lambda>rh.
     let pQh = Qh * rh ^ 2 in
     rbind (py_div ((Rinf + Rh) * (Rinf + Rh + Rm)) Rm) (\<lambda>pRm.
     rbind (py_div Rm (Rinf + Rh + Rm)) (\<lambda>rm.
     let pQm = Qm * rm ^ 2 in
     rbind (py_div ((Rinf + Rh + Rm) * (Rinf + Rh + Rm + Rl)) Rl) (\<lambda>pRl.
     rbind (py_div Rl (Rinf + Rh + Rm + Rl)) (\<lambda>rl.
     let pQl = Ql * rl ^ 2 in
     rbind (py_div 1 (2 * pi * Fh * Rh)) (\<lambda>Ch.
     let pCh = Ch * rh ^ 2 in
     rbind (py_div 1 (2 * pi * Fm * Rm)) (\<lambda>Cm.
     let pCm = Cm * rm ^ 2 in
     rbind (py_div 1 (2 * pi * Fl * Rl)) (\<lambda>Cl.
     let pCl = Cl * rl ^ 2 in
     Inr (c\<lparr>q := (q c)(''Qh'' \<mapsto> Qh, ''Qm'' \<mapsto> Qm, ''Ql'' \<mapsto> Ql),
            par_second := (par_second c)(''R0'' \<mapsto> R0, ''pRh'' \<mapsto> pRh, ''pQh'' \<mapsto> pQh,
              ''pRm'' \<mapsto> pRm, ''pQm'' \<mapsto> pQm, ''pRl'' \<mapsto> pRl, ''pQl'' \<mapsto> pQl),
            par_other_sec := (par_other_sec c)(''Ch'' \<mapsto> Ch, ''pCh'' \<mapsto> pCh,
              ''Cm'' \<mapsto> Cm, ''pCm'' \<mapsto> pCm, ''Cl'' \<mapsto> Cl, ''pCl'' \<mapsto> pCl)\<rparr>)
     ))))))))))))))))))))))"

text \<open>
  The first statements shared by all four \<^verbatim>\<open>run_*\<close> methods, on the copy
  \<^verbatim>\<open>par\<close> of the parameters: the sign of Rinf is inverted when the flag is set,
  then the secondary parameters are derived unless \<^verbatim>\<open>old_par_second\<close> is set.
\<close>

definition flip_rinf :: "circuit \<Rightarrow> params \<Rightarrow> params result" where
  "flip_rinf c par =
     (if negative_rinf c
      then rbind (lookup par ''Rinf'') (\<lambda>Rinf. Inr (par(''Rinf'' \<mapsto> - Rinf)))
      else Inr par)"

definition refresh_secondary :: "circuit \<Rightarrow> params \<Rightarrow> bool \<Rightarrow> circuit result" where
  "refresh_secondary c par old_par_second =
     (if \<not> old_par_second then calculate_secondary_parameters c par else Inr c)"

text \<open>One pass of the loop body of \<^verbatim>\<open>ModelCircuitSeries.run_rock\<close>.\<close>

definition series_rock_at :: "circuit \<Rightarrow> params \<Rightarrow> real \<Rightarrow> complex result" where
  "series_rock_at c par freq =
     rbind (lookup (q c) ''Qm'') (\<lambda>Qm.
     rbind (lookup par ''Pm'') (\<lambda>Pm.
     rbind (cpe freq Qm Pm Pm) (\<lambda>z_cpem.
     rbind (lookup par ''Rm'') (\<lambda>Rm.
     rbind (parallel z_cpem (complex_of_real Rm)) (\<lambda>zarcm.
     rbind (lookup (q c) ''Ql'') (\<lambda>Ql.
     rbind (lookup par ''Pl'') (\<lambda>Pl.
     rbind (cpe freq Ql Pl Pl) (\<lambda>z_cpel.
     rbind (lookup par ''Rl'') (\<lambda>Rl.
     rbind (parallel z_cpel (complex_of_real Rl)) (\<lambda>zarcl.
     Inr (zarcm + zarcl)))))))))))"

text \<open>One pass of the loop body of \<^verbatim>\<open>ModelCircuitParallel.run_rock\<close>.\<close>

definition parallel_rock_at :: "circuit \<Rightarrow> params \<Rightarrow> real \<Rightarrow> complex result" where
  "parallel_rock_at c par f =
     (let par2 = par_second c in
     rbind (lookup par2 ''pRm'') (\<lambda>pRm.
     rbind (lookup par2 ''pQm'') (\<lambda>pQm.
     rbind (lookup par ''Pm'') (\<lambda>Pm.
     rbind (cpe f pQm Pm Pm) (\<lambda>z_cpem.
     let z_line_m = complex_of_real pRm + z_cpem in
     rbind (lookup par2 ''pRl'') (\<lambda>pRl.
     rbind (lookup par2 ''pQl'') (\<lambda>pQl.
     rbind (lookup par ''Pl'') (\<lambda>Pl.
     rbind (cpe f pQl Pl Pl) (\<lambda>z_cpel.
     let z_line_l = complex_of_real pRl + z_cpel in
     rbind (parallel z_line_m z_line_l) (\<lambda>z_lines.
     rbind (lookup par2 ''R0'') (\<lambda>R0.
     parallel z_lines (complex_of_real R0))))))))))))"

text \<open>The loop body of \<^verbatim>\<open>run_rock\<close> of the subclass at hand.\<close>

definition rock_at :: "topology \<Rightarrow> circuit \<Rightarrow> params \<Rightarrow> real \<Rightarrow> complex result" where
  "rock_at tp c par =
     (case tp of Series \<Rightarrow> series_rock_at c par | Parallel \<Rightarrow> parallel_rock_at c par)"

definition run_rock ::
  "topology \<Rightarrow> circuit \<Rightarrow> params \<Rightarrow> real list \<Rightarrow> bool \<Rightarrow> (complex list \<times> circuit) result" where
  "run_rock tp c parameters freq_array old_par_second =
     rbind (flip_rinf c parameters) (\<lambda>par.
     rbind (refresh_secondary c par old_par_second) (\<lambda>c'.
     rbind (mapM (rock_at tp c' par) freq_array) (\<lambda>z.
     Inr (z, c'))))"

text \<open>
  \<^verbatim>\<open>ModelCircuitSeries.run_model\<close>. It calls \<^verbatim>\<open>run_rock\<close> on the parameters
  whose Rinf it has already inverted, with \<^verbatim>\<open>old_par_second=True\<close>.
\<close>

definition run_model_series ::
  "circuit \<Rightarrow> params \<Rightarrow> real list \<Rightarrow> bool \<Rightarrow> ((complex list \<times> complex list) \<times> circuit) result" where
  "run_model_series c parameters freq_array old_par_second =
     rbind (flip_rinf c parameters) (\<lambda>par.
     rbind (refresh_secondary c par old_par_second) (\<lambda>c1.
     rbind (run_rock Series c1 par freq_array True) (\<lambda>(z_rock, c2).
     rbind (mapM (\<lambda>freq.
              rbind (lookup par ''Linf'') (\<lambda>Linf.
              rbind (inductor freq Linf) (\<lambda>zl.
              rbind (lookup par ''Rinf'') (\<lambda>Rinf.
              Inr (zl + complex_of_real Rinf))))) freq_array) (\<lambda>zinf.
     rbind (mapM (\<lambda>freq.
              rbind (lookup (q c2) ''Qh'') (\<lambda>Qh.
              rbind (lookup par ''Ph'') (\<lambda>Ph.
              cpe freq Qh Ph Ph))) freq_array) (\<lambda>z_cpeh.
     rbind (mapM (\<lambda>i.
              rbind (item z_cpeh i) (\<lambda>z.
              rbind (lookup par ''Rh'') (\<lambda>Rh.
              parallel z (complex_of_real Rh)))) [0..<length freq_array]) (\<lambda>zarch.
     rbind (mapM (\<lambda>freq.
              rbind (lookup par ''Qe'') (\<lambda>Qe.
              rbind (lookup par ''Pef'') (\<lambda>Pef.
              rbind (lookup par ''Pei'') (\<lambda>Pei.
              cpe freq Qe Pef Pei)))) freq_array) (\<lambda>z_cpee.
     rbind (mapM (\<lambda>i.
              rbind (item z_cpee i) (\<lambda>z.
              rbind (lookup par ''Re'') (\<lambda>Re'.
              parallel z (complex_of_real Re')))) [0..<length freq_array]) (\<lambda>zarce.
     rbind (mapM (\<lambda>i.
              rbind (item zinf i) (\<lambda>a.
              rbind (item zarch i) (\<lambda>b.
              rbind (item z_rock i) (\<lambda>r.
              rbind (item zarce i) (\<lambda>e.
              Inr (a + b + r + e)))))) [0..<length freq_array]) (\<lambda>z.
     Inr ((z, z_rock), c2))))))))))"

text \<open>
  \<^verbatim>\<open>ModelCircuitParallel.run_model\<close>. \<^verbatim>\<open>par2\<close> is the object's own
  \<^verbatim>\<open>par_second\<close> dictionary, which the derivation updates in place, so the entries
  read afterwards are the derived ones.
\<close>

definition run_model_parallel ::
  "circuit \<Rightarrow> params \<Rightarrow> real list \<Rightarrow> bool \<Rightarrow> ((complex list \<times> complex list) \<times> circuit) result" where
  "run_model_parallel c parameters freq_array old_par_second =
     rbind (flip_rinf c parameters) (\<lambda>par.
     rbind (refresh_secondary c par old_par_second) (\<lambda>c1.
     rbind (run_rock Parallel c1 par freq_array True) (\<lambda>(z_rock, c2).
     let par2 = par_second c2 in
     rbind (mapM (\<lambda>f.
              rbind (lookup par2 ''pRh'') (\<lambda>pRh.
              rbind (lookup par2 ''pQh'') (\<lambda>pQh.
              rbind (lookup par ''Ph'') (\<lambda>Ph.
              rbind (cpe f pQh Ph Ph) (\<lambda>z.
              Inr (complex_of_real pRh + z)))))) freq_array) (\<lambda>z_line_h.
     rbind (parallel_arrays z_line_h z_rock) (\<lambda>z_rock_line_h.
     rbind (mapM (\<lambda>f.
              rbind (lookup par ''Linf'') (\<lambda>Linf.
              inductor f Linf)) freq_array) (\<lambda>zinf.
     rbind (mapM (\<lambda>f.
              rbind (lookup par ''Qe'') (\<lambda>Qe.
              rbind (lookup par ''Pef'') (\<lambda>Pef.
              rbind (lookup par ''Pei'') (\<lambda>Pei.
              cpe f Qe Pef Pei)))) freq_array) (\<lambda>z_cpee.
     rbind (mapM (\<lambda>i.
              rbind (item z_cpee i) (\<lambda>z.
              rbind (lookup par ''Re'') (\<lambda>Re'.
              parallel z (complex_of_real Re')))) [0..<length freq_array]) (\<lambda>zarce.
     rbind (mapM (\<lambda>i.
              rbind (item zinf i) (\<lambda>a.
              rbind (item z_rock_line_h i) (\<lambda>b.
              rbind (item zarce i) (\<lambda>e.
              Inr (a + b + e))))) [0..<length freq_array]) (\<lambda>z_circuit.
     Inr ((z_circuit, z_rock), c2))))))))))"

definition run_model ::
  "topology \<Rightarrow> circuit \<Rightarrow> params \<Rightarrow> real list \<Rightarrow> bool \<Rightarrow> ((complex list \<times> complex list) \<times> circuit) result" where
  "run_model tp c parameters freq_array old_par_second =
     (case tp of
        Series \<Rightarrow> run_model_series c parameters freq_array old_par_second
      | Parallel \<Rightarrow> run_model_parallel c parameters freq_array old_par_second)"

section \<open>FitBuilder.py\<close>

text \<open>
  A bound of a parameter is a float that may be infinite: \<^verbatim>\<open>set_bounds\<close> gives Pei
  the bounds \<^verbatim>\<open>-np.inf\<close> and \<^verbatim>\<open>+np.inf\<close>.
\<close>

datatype bound = NegInf | Fin real | PosInf

text \<open>
  The measured spectrum, \<^verbatim>\<open>_experiment_data\<close>, with its three arrays.
\<close>

record spectrum =
  freq :: "real list"
  Z_real :: "real list"
  Z_imag :: "real list"

text \<open>
  The attributes of \<^verbatim>\<open>FitBuilder\<close>. \<^verbatim>\<open>initial_params\<close> is a dictionary whose
  key order fixes the layout of the optimisation vector, so it is kept as the list of
  its items in insertion order (distinct keys); \<open>map_of\<close> reads it.
\<close>

record fit_builder =
  experiment_data :: spectrum
  model_topology :: topology
  model_circuit :: circuit
  lower_bounds :: "string \<Rightarrow> bound option"
  upper_bounds :: "string \<Rightarrow> bound option"
  disabled_variables :: "string set"
  gaussian_prior :: bool
  previous_fit_params :: "(string \<times> real) list"
  base_weight :: real
  exp_weight :: real

definition startswith :: "string \<Rightarrow> string \<Rightarrow> bool" where
  "startswith s pre = (take (length pre) s = pre)"

text \<open>One pass of the loop of \<^verbatim>\<open>_scale_params\<close>, and the loop.\<close>

definition scale_value :: "params \<Rightarrow> string \<Rightarrow> real result" where
  "scale_value params key =
     rbind (lookup params key) (\<lambda>v.
       if startswith key ''P'' then Inr (v * 10)
       else if v \<le> 0 then Inl ValueError
       else Inr (log 10 v))"

definition scale_params :: "string list \<Rightarrow> params \<Rightarrow> real list result" where
  "scale_params keys params = mapM (scale_value params) keys"

text \<open>
  \<^verbatim>\<open>_build_bounds\<close> calls the same \<^verbatim>\<open>_scale_params\<close> on the two bound
  dictionaries, whose entries may be infinite: ten times an infinity is that infinity,
  minus infinity is \<open>\<le> 0\<close>, and the logarithm of plus infinity is plus infinity.
\<close>

definition scale_bound :: "(string \<Rightarrow> bound option) \<Rightarrow> string \<Rightarrow> bound result" where
  "scale_bound bounds key =
     (case bounds key of
        None \<Rightarrow> Inl KeyError
      | Some b \<Rightarrow>
          if startswith key ''P''
          then Inr (case b of Fin v \<Rightarrow> Fin (v * 10) | NegInf \<Rightarrow> NegInf | PosInf \<Rightarrow> PosInf)
          else (case b of
                  NegInf \<Rightarrow> Inl ValueError
                | Fin v \<Rightarrow> if v \<le> 0 then Inl ValueError else Inr (Fin (log 10 v))
                | PosInf \<Rightarrow> Inr PosInf))"

definition build_bounds :: "fit_builder \<Rightarrow> string list \<Rightarrow> (bound list \<times> bound list) result" where
  "build_bounds fb free_keys =
     rbind (mapM (scale_bound (lower_bounds fb)) free_keys) (\<lambda>lower_scaled.
     rbind (mapM (scale_bound (upper_bounds fb)) free_keys) (\<lambda>upper_scaled.
     Inr (lower_scaled, upper_scaled)))"

text \<open>
  \<^verbatim>\<open>_descale_params\<close>: the loop over \<^verbatim>\<open>enumerate(keys)\<close> fills the dictionary
  \<^verbatim>\<open>descale\<close>; \<^verbatim>\<open>x[i]\<close> raises when the vector is shorter than the key list.
\<close>

definition descale_value :: "string \<Rightarrow> real \<Rightarrow> real" where
  "descale_value key xi = (if startswith key ''P'' then xi / 10 else 10 powr xi)"

fun descale_loop :: "(nat \<times> string) list \<Rightarrow> real list \<Rightarrow> params \<Rightarrow> params result" where
  "descale_loop [] x descale = Inr descale"
| "descale_loop ((i, key) # rest) x descale =
     rbind (item x i) (\<lambda>xi. descale_loop rest x (descale(key \<mapsto> descale_value key xi)))"

definition descale_params :: "string list \<Rightarrow> real list \<Rightarrow> params result" where
  "descale_params keys x = descale_loop (enumerate 0 keys) x Map.empty"

definition invalid_guess :: "params \<Rightarrow> real list result" where
  "invalid_guess params =
     rbind (lookup params ''Fm'') (\<lambda>Fm.
     rbind (lookup params ''Fh'') (\<lambda>Fh.
     rbind (lookup params ''Fl'') (\<lambda>Fl.
     rbind (lookup params ''Fm'') (\<lambda>Fm'.
     Inr [max 0 (Fm - Fh), max 0 (Fl - Fm')]))))"

definition compute_invalid_guess_penalty :: "params \<Rightarrow> real \<Rightarrow> real list result" where
  "compute_invalid_guess_penalty params prior_weight =
     (let arbitrary_scaling = 10 ^ 4 in
      rbind (invalid_guess params) (\<lambda>deviation.
      Inr (map (\<lambda>d. d * arbitrary_scaling * prior_weight) deviation)))"

text \<open>
  \<^verbatim>\<open>_compute_gaussian_prior\<close>, entry by entry. The width \<^verbatim>\<open>sigmas\<close> is infinite
  for an unbounded parameter, and a finite number divided by an infinity is 0; the
  difference of two equal infinities is nan.
\<close>

definition bound_sub :: "bound \<Rightarrow> bound \<Rightarrow> bound result" where
  "bound_sub u l =
     (case (u, l) of
        (Fin a, Fin b) \<Rightarrow> Inr (Fin (a - b))
      | (PosInf, PosInf) \<Rightarrow> Inl NonFinite
      | (NegInf, NegInf) \<Rightarrow> Inl NonFinite
      | (PosInf, _) \<Rightarrow> Inr PosInf
      | (NegInf, _) \<Rightarrow> Inr NegInf
      | (Fin a, PosInf) \<Rightarrow> Inr NegInf
      | (Fin a, NegInf) \<Rightarrow> Inr PosInf)"

definition bound_times :: "bound \<Rightarrow> nat \<Rightarrow> bound result" where
  "bound_times b k =
     (case b of
        Fin a \<Rightarrow> Inr (Fin (a * real k))
      | _ \<Rightarrow> (if 0 < k then Inr b else Inl NonFinite))"

definition div_by_bound :: "real \<Rightarrow> bound \<Rightarrow> real result" where
  "div_by_bound d s = (case s of Fin a \<Rightarrow> py_div d a | _ \<Rightarrow> Inr 0)"

definition compute_gaussian_prior ::
  "real list \<Rightarrow> real list \<Rightarrow> bound list \<Rightarrow> bound list \<Rightarrow> real \<Rightarrow> nat \<Rightarrow> real list result" where
  "compute_gaussian_prior x_guess x0 lower upper prior_weight gaussian_fraction =
     rbind (broadcast2 bound_sub upper lower) (\<lambda>widths.
     rbind (mapM (\<lambda>w. bound_times w gaussian_fraction) widths) (\<lambda>sigmas.
     rbind (broadcast2 (\<lambda>a b. Inr (a - b)) x_guess x0) (\<lambda>diffs.
     rbind (broadcast2 div_by_bound diffs sigmas) (\<lambda>ratios.
     Inr (map (\<lambda>r. prior_weight * r) ratios)))))"

text \<open>
  \<^verbatim>\<open>_weight_function\<close>: the loop over the four exponent keys.
\<close>

fun weight_loop :: "fit_builder \<Rightarrow> params \<Rightarrow> real \<Rightarrow> string list \<Rightarrow> real result" where
  "weight_loop fb params weight [] = Inr weight"
| "weight_loop fb params weight (key # keys) =
     rbind (lookup params key) (\<lambda>v.
       weight_loop fb params (weight * (1 + base_weight fb * exp (exp_weight fb * v))) keys)"

definition weight_function :: "fit_builder \<Rightarrow> params \<Rightarrow> real result" where
  "weight_function fb params = weight_loop fb params 1 [''Ph'', ''Pm'', ''Pl'', ''Pef'']"

text \<open>
  The two residual functions. Each runs the circuit held by the builder with
  \<^verbatim>\<open>old_par_second\<close> at its default \<^verbatim>\<open>False\<close>, so what it returns depends on the
  parameters only; the refreshed caches of the circuit are not part of the residual.
\<close>

definition np_sub :: "real list \<Rightarrow> real list \<Rightarrow> real list result" where
  "np_sub xs ys = broadcast2 (\<lambda>a b. Inr (a - b)) xs ys"

definition residual_cole :: "fit_builder \<Rightarrow> params \<Rightarrow> real list result" where
  "residual_cole fb params =
     (let freq_array = freq (experiment_data fb) in
      rbind (run_model (model_topology fb) (model_circuit fb) params freq_array False)
        (\<lambda>((z, z_rock), c').
      let z_real = map Re z; z_imag = map Im z;
          exp_real = Z_real (experiment_data fb);
          exp_imag = Z_imag (experiment_data fb) in
      rbind (weight_function fb params) (\<lambda>weight.
      rbind (np_sub z_real exp_real) (\<lambda>d_real.
      rbind (np_sub z_imag exp_imag) (\<lambda>d_imag.
      Inr (map (\<lambda>d. d * weight) d_real @ map (\<lambda>d. d * weight) d_imag))))))"

text \<open>\<^verbatim>\<open>np.arctan2(y, x)\<close>, \<^verbatim>\<open>np.log10\<close> and \<^verbatim>\<open>np.hypot\<close> on one entry.\<close>

definition arctan2 :: "real \<Rightarrow> real \<Rightarrow> real" where
  "arctan2 y x =
     (if 0 < x then arctan (y / x)
      else if x < 0 \<and> 0 \<le> y then arctan (y / x) + pi
      else if x < 0 \<and> y < 0 then arctan (y / x) - pi
      else if 0 < y then pi / 2
      else if y < 0 then - (pi / 2)
      else 0)"

definition np_log10 :: "real \<Rightarrow> real result" where
  "np_log10 x = (if 0 < x then Inr (log 10 x) else Inl NonFinite)"

definition np_hypot :: "real list \<Rightarrow> real list \<Rightarrow> real list result" where
  "np_hypot xs ys = broadcast2 (\<lambda>a b. Inr (sqrt (a ^ 2 + b ^ 2))) xs ys"

definition phase_deg :: "real list \<Rightarrow> real list \<Rightarrow> real list result" where
  "phase_deg imag_part real_part =
     broadcast2 (\<lambda>y x. Inr (arctan2 y x * 180 / pi)) imag_part real_part"

definition residual_bode :: "fit_builder \<Rightarrow> params \<Rightarrow> real list result" where
  "residual_bode fb params =
     (let freq_array = freq (experiment_data fb) in
      rbind (run_model (model_topology fb) (model_circuit fb) params freq_array False)
        (\<lambda>((z, z_rock), c').
      let z_real = map Re z; z_imag = map Im z in
      rbind (np_hypot z_real z_imag) (\<lambda>z_abs.
      rbind (phase_deg z_imag z_real) (\<lambda>z_phase_deg.
      let exp_real = Z_real (experiment_data fb);
          exp_imag = Z_imag (experiment_data fb) in
      rbind (np_hypot exp_real exp_imag) (\<lambda>exp_abs.
      rbind (phase_deg exp_imag exp_real) (\<lambda>exp_phase_deg.
      rbind (mapM np_log10 z_abs) (\<lambda>log_z_abs.
      rbind (mapM np_log10 exp_abs) (\<lambda>log_exp_abs.
      rbind (np_sub log_z_abs log_exp_abs) (\<lambda>res_abs.
      rbind (mapM (\<lambda>p. np_log10 (\<bar>p\<bar> + 1 / 10 ^ 10)) z_phase_deg) (\<lambda>log_z_phase.
      rbind (mapM (\<lambda>p. np_log10 (\<bar>p\<bar> + 1 / 10 ^ 10)) exp_phase_deg) (\<lambda>log_exp_phase.
      rbind (np_sub log_z_phase log_exp_phase) (\<lambda>res_phase.
      rbind (weight_function fb params) (\<lambda>weight.
      Inr (map (\<lambda>d. d * weight) res_abs @ map (\<lambda>d. d * weight) res_phase))))))))))))))"

text \<open>
  The closure \<^verbatim>\<open>_residual_wrapper\<close> of \<^verbatim>\<open>fit_model\<close>, with the variables it
  captures as arguments. Only \<^verbatim>\<open>ValueError\<close> is caught around the residual
  function; the penalty vector is \<^verbatim>\<open>np.ones(10000) * 1e6\<close>.
\<close>

definition residual_wrapper ::
  "fit_builder \<Rightarrow> (params \<Rightarrow> real list result) \<Rightarrow> string list \<Rightarrow> params \<Rightarrow> real list
     \<Rightarrow> bound list \<Rightarrow> bound list \<Rightarrow> real \<Rightarrow> real list \<Rightarrow> real list result" where
  "residual_wrapper fb residual_func free_keys locked_params x0 lower_bounds_scaled
       upper_bounds_scaled prior_weight x_free =
     rbind (descale_params free_keys x_free) (\<lambda>free_params.
     let full_params = locked_params ++ free_params in
     (case residual_func full_params of
        Inl ValueError \<Rightarrow> Inr (replicate 10000 (1 * 10 ^ 6))
      | Inl e \<Rightarrow> Inl e
      | Inr model_residual \<Rightarrow>
          if gaussian_prior fb then
            rbind (compute_gaussian_prior x_free x0 lower_bounds_scaled upper_bounds_scaled
                     prior_weight 5) (\<lambda>prior_res.
            rbind (compute_invalid_guess_penalty full_params prior_weight) (\<lambda>invalid_penalty.
            Inr (model_residual @ prior_res @ invalid_penalty)))
          else Inr model_residual))"

text \<open>
  \<^verbatim>\<open>a % b\<close> on floats, for a positive divisor: the remainder has the sign of the
  divisor.
\<close>

definition float_mod :: "real \<Rightarrow> real \<Rightarrow> real" where
  "float_mod a b = a - b * of_int \<lfloor>a / b\<rfloor>"

text \<open>The two comprehensions at the start of \<^verbatim>\<open>fit_model\<close>.\<close>

definition free_keys_of :: "fit_builder \<Rightarrow> (string \<times> real) list \<Rightarrow> string list" where
  "free_keys_of fb initial_params =
     filter (\<lambda>k. k \<notin> disabled_variables fb) (map fst initial_params)"

definition locked_params_of :: "fit_builder \<Rightarrow> (string \<times> real) list \<Rightarrow> params" where
  "locked_params_of fb initial_params =
     (\<lambda>k. if k \<in> disabled_variables fb then map_of initial_params k else None)"

text \<open>
  \<^verbatim>\<open>fit_model\<close>. The bounded least-squares solver \<^verbatim>\<open>scipy.optimize.least_squares\<close>
  is not part of the repository: it is the argument \<open>solve\<close>, which receives the
  objective, the start vector and the two bound vectors and either returns the vector
  \<^verbatim>\<open>result.x\<close> or raises (its own exceptions and those of the objective). The
  dictionary emitted on \<^verbatim>\<open>model_manual_values\<close> is the returned one.
\<close>

type_synonym solver =
  "(real list \<Rightarrow> real list result) \<Rightarrow> real list \<Rightarrow> bound list \<times> bound list \<Rightarrow> real list result"

definition fit_model ::
  "fit_builder \<Rightarrow> solver \<Rightarrow> (params \<Rightarrow> real list result) \<Rightarrow> (string \<times> real) list \<Rightarrow> real
     \<Rightarrow> params result \<times> fit_builder" where
  "fit_model fb solve residual_func initial_params prior_weight =
     (let fb' = fb\<lparr>previous_fit_params := initial_params\<rparr>;
          free_keys = free_keys_of fb initial_params;
          locked_params = locked_params_of fb initial_params
      in
      (rbind (scale_params free_keys (map_of initial_params)) (\<lambda>x0.
       rbind (build_bounds fb free_keys) (\<lambda>(lower_bounds_scaled, upper_bounds_scaled).
       rbind (solve (residual_wrapper fb residual_func free_keys locked_params x0
                       lower_bounds_scaled upper_bounds_scaled prior_weight)
                x0 (lower_bounds_scaled, upper_bounds_scaled)) (\<lambda>result_x.
       rbind (descale_params free_keys result_x) (\<lambda>best_fit_free.
       let best_fit = locked_params ++ best_fit_free in
       Inr (case best_fit ''Pei'' of
              Some pei \<Rightarrow> best_fit(''Pei'' \<mapsto> float_mod (pei + 1) 4 - 1)
            | None \<Rightarrow> best_fit))))),
       fb'))"

definition fit_model_cole ::
  "fit_builder \<Rightarrow> solver \<Rightarrow> (string \<times> real) list \<Rightarrow> real \<Rightarrow> params result \<times> fit_builder" where
  "fit_model_cole fb solve initial_params prior_weight =
     fit_model fb solve (residual_cole fb) initial_params prior_weight"

definition fit_model_bode ::
  "fit_builder \<Rightarrow> solver \<Rightarrow> (string \<times> real) list \<Rightarrow> real \<Rightarrow> params result \<times> fit_builder" where
  "fit_model_bode fb solve initial_params prior_weight =
     fit_model fb solve (residual_bode fb) initial_params prior_weight"

section \<open>TimeDomainBuilder.py\<close>

text \<open>
  The attributes of \<^verbatim>\<open>TimeDomainBuilder\<close>; the constructor sets \<open>N = 2 ^ 14\<close>
  and \<open>T = 4\<close>.
\<close>

record time_domain_builder =
  N :: nat
  T :: nat
  integral_variables :: params

text \<open>
  The numpy and scipy routines that the transform calls are not part of the
  repository. \<^verbatim>\<open>np.fft.irfft\<close> and the zero-phase Butterworth filter
  \<^verbatim>\<open>sig.filtfilt(b, a, .)\<close> with \<^verbatim>\<open>b, a = sig.butter(2, 0.45)\<close> are the two
  fields of the argument \<open>dsp\<close>; each returns an array or raises.
\<close>

record dsp =
  irfft :: "complex list \<Rightarrow> real list result"
  filtfilt :: "real list \<Rightarrow> real list result"

text \<open>
  \<^verbatim>\<open>np.linspace(start, stop, num)\<close>, \<^verbatim>\<open>np.cumsum\<close>, and
  \<^verbatim>\<open>np.searchsorted\<close> on an ascending array: with \<^verbatim>\<open>side="left"\<close> (the default)
  the number of entries below the value, with \<^verbatim>\<open>side="right"\<close> the number of
  entries not above it.
\<close>

definition linspace :: "real \<Rightarrow> real \<Rightarrow> nat \<Rightarrow> real list" where
  "linspace start stop num =
     map (\<lambda>i. start + real i * ((stop - start) / real (num - 1))) [0..<num]"

fun cumsum_from :: "real \<Rightarrow> real list \<Rightarrow> real list" where
  "cumsum_from acc [] = []"
| "cumsum_from acc (x # xs) = (acc + x) # cumsum_from (acc + x) xs"

definition cumsum :: "real list \<Rightarrow> real list" where
  "cumsum xs = cumsum_from 0 xs"

definition searchsorted_left :: "real list \<Rightarrow> real \<Rightarrow> nat" where
  "searchsorted_left a v = length (takeWhile (\<lambda>x. x < v) a)"

definition searchsorted_right :: "real list \<Rightarrow> real \<Rightarrow> nat" where
  "searchsorted_right a v = length (takeWhile (\<lambda>x. x \<le> v) a)"

text \<open>
  \<^verbatim>\<open>_fourier_transform_pulse\<close> after the filter: the time axis, the rising and the
  falling response, from the filtered impulse sequence \<^verbatim>\<open>z_inversefft\<close>.
\<close>

definition pulse_from_impulse :: "real list \<Rightarrow> real \<Rightarrow> (real list \<times> real list \<times> real list) result" where
  "pulse_from_impulse z_inversefft dt =
     (let t = map (\<lambda>i. real i * dt) [0..<length z_inversefft];
          volt_up = 0 # butlast (cumsum z_inversefft);
          time_to_plot_in_seconds = 2;
          index = searchsorted_right t time_to_plot_in_seconds
      in rbind (item volt_up index) (\<lambda>reference.
         let volt_down = map (\<lambda>v. reference - v) volt_up in
         Inr (t, volt_down, volt_up)))"

definition fourier_transform_pulse ::
  "dsp \<Rightarrow> complex list \<Rightarrow> real \<Rightarrow> (real list \<times> real list \<times> real list) result" where
  "fourier_transform_pulse d z_complex dt =
     rbind (irfft d z_complex) (\<lambda>z_inversefft.
     rbind (filtfilt d z_inversefft) (\<lambda>z_filtered.
     pulse_from_impulse z_filtered dt))"

text \<open>\<^verbatim>\<open>_integration_variables\<close>: the loop over the nine checkpoints.\<close>

fun integration_loop :: "(string \<times> real) list \<Rightarrow> real list \<Rightarrow> real list \<Rightarrow> params \<Rightarrow> params result" where
  "integration_loop [] t v_down vars = Inr vars"
| "integration_loop ((key, mili) # rest) t v_down vars =
     (let index = searchsorted_left t mili in
      rbind (item v_down index) (\<lambda>v.
      integration_loop rest t v_down (vars(key \<mapsto> v))))"

definition integration_variables ::
  "time_domain_builder \<Rightarrow> real list \<Rightarrow> real list \<Rightarrow> time_domain_builder result" where
  "integration_variables tdb t v_down =
     (let keys = [''V(.1ms)'', ''V(1ms)'', ''V(10)'', ''V(100)'', ''V(200)'', ''V(400)'',
                  ''V(800)'', ''V(1.2s)'', ''V(1.6s)''];
          seconds = [1 / 10000, 1 / 1000, 1 / 100, 1 / 10, 2 / 10, 4 / 10, 8 / 10, 12 / 10,
                     16 / 10]
      in rbind (integration_loop (zip keys seconds) t v_down (integral_variables tdb))
           (\<lambda>vars. Inr (tdb\<lparr>integral_variables := vars\<rparr>)))"

text \<open>
  \<^verbatim>\<open>run_time_domain\<close> in its parts: the frequency grid with its first bin replaced,
  the rock impedance on the grid with the imaginary part of its first bin removed (the
  array handed to \<^verbatim>\<open>_fourier_transform_pulse\<close>), the statements after the transform,
  and the whole method.
\<close>

definition time_domain_grid :: "time_domain_builder \<Rightarrow> (real \<times> real list) result" where
  "time_domain_grid tdb =
     (let n_freq = N tdb div 2 in
      rbind (py_div (real (T tdb)) (real (N tdb))) (\<lambda>dt.
      rbind (py_div 1 (real (T tdb))) (\<lambda>df.
      let fmin = 0;
          fmax = real n_freq * df;
          freq_even = linspace fmin fmax (n_freq + 1) in
      rbind (set_item freq_even 0 (1 / 1000)) (\<lambda>freq_even.
      Inr (dt, freq_even)))))"

definition time_domain_spectrum ::
  "time_domain_builder \<Rightarrow> topology \<Rightarrow> circuit \<Rightarrow> params
     \<Rightarrow> (real \<times> real list \<times> complex list \<times> circuit) result" where
  "time_domain_spectrum tdb tp c params =
     rbind (time_domain_grid tdb) (\<lambda>(dt, freq_even).
     rbind (run_rock tp c params freq_even False) (\<lambda>(z_complex, c').
     rbind (item z_complex 0) (\<lambda>z0.
     rbind (set_item z_complex 0 (complex_of_real (Re z0))) (\<lambda>z_complex.
     Inr (dt, freq_even, z_complex, c')))))"

definition time_domain_output ::
  "time_domain_builder \<Rightarrow> real list \<Rightarrow> circuit \<Rightarrow> real list \<times> real list \<times> real list
     \<Rightarrow> ((real list \<times> real list \<times> real list \<times> real list) \<times> time_domain_builder \<times> circuit) result" where
  "time_domain_output tdb freq_even c' = (\<lambda>(t, volt_down, volt_up).
     rbind (integration_variables tdb t volt_down) (\<lambda>tdb'.
     let index = searchsorted_left t (real (T tdb div 2)) in
     Inr ((take (index + 1) freq_even, take (index + 1) t, take (index + 1) volt_down,
           take (index + 1) volt_up), tdb', c')))"

definition run_time_domain ::
  "time_domain_builder \<Rightarrow> dsp \<Rightarrow> topology \<Rightarrow> circuit \<Rightarrow> params
     \<Rightarrow> ((real list \<times> real list \<times> real list \<times> real list) \<times> time_domain_builder \<times> circuit) result" where
  "run_time_domain tdb d tp c params =
     rbind (time_domain_spectrum tdb tp c params) (\<lambda>(dt, freq_even, z_complex, c').
     rbind (fourier_transform_pulse d z_complex dt) (time_domain_output tdb freq_even c'))"

section \<open>Calculator.py\<close>

definition get_special_freqs :: "params \<Rightarrow> real list result" where
  "get_special_freqs slider_values =
     rbind (lookup slider_values ''Fh'') (\<lambda>Fh.
     rbind (lookup slider_values ''Fm'') (\<lambda>Fm.
     rbind (lookup slider_values ''Fl'') (\<lambda>Fl.
     Inr [Fh, Fm, Fl])))"

text \<open>
  \<^verbatim>\<open>_calculate_special_frequencies\<close>, on the calculator's circuit and its
  dictionary \<^verbatim>\<open>_calculator_variables\<close>. It returns the three arrays, the updated
  dictionary and the circuit.
\<close>

definition calculate_special_frequencies ::
  "topology \<Rightarrow> circuit \<Rightarrow> params \<Rightarrow> params
     \<Rightarrow> ((real list \<times> real list \<times> real list) \<times> params \<times> circuit) result" where
  "calculate_special_frequencies tp c calculator_variables params =
     (let params_no_electrode = params(''Re'' \<mapsto> 1 * 10 ^ 8, ''Qe'' \<mapsto> 1 * 10 ^ 2);
          fixed_special_frequencies = [1 / 10] in
      rbind (get_special_freqs params) (\<lambda>dynamic_special_freq.
      rbind (run_model tp c params_no_electrode fixed_special_frequencies True)
        (\<lambda>((fsf_z, rock1), c1).
      rbind (run_model tp c1 params dynamic_special_freq True) (\<lambda>((dsf_z, rock2), c2).
      rbind (item (map Re fsf_z) 0) (\<lambda>r01.
      let calculator_variables' = calculator_variables(''R01'' \<mapsto> r01);
          special_freq = dynamic_special_freq @ fixed_special_frequencies;
          spec_zr = map Re dsf_z @ map Re fsf_z;
          spec_zi = map Im dsf_z @ map (\<lambda>r. 0) (map Re fsf_z) in
      Inr ((special_freq, spec_zr, spec_zi), calculator_variables', c2))))))"

section \<open>Concrete inputs\<close>

text \<open>
  A circuit as the constructors build it (\<^verbatim>\<open>ModelCircuitSeries()\<close>,
  \<^verbatim>\<open>ModelCircuitParallel()\<close>: flag clear, empty caches), and a full parameter set
  whose CPE exponents are all 0, so that every impedance below is a rational number
  plus the inductor's imaginary part.
\<close>

definition fresh_circuit :: circuit where
  "fresh_circuit =
     \<lparr>negative_rinf = False, q = Map.empty, par_second = Map.empty, par_other_sec = Map.empty\<rparr>"

definition example_params :: params where
  "example_params =
     [''Rinf'' \<mapsto> 1, ''Rh'' \<mapsto> 3, ''Rm'' \<mapsto> 2, ''Rl'' \<mapsto> 2, ''Linf'' \<mapsto> 1, ''Re'' \<mapsto> 2,
      ''Ph'' \<mapsto> 0, ''Pm'' \<mapsto> 0, ''Pl'' \<mapsto> 0, ''Fh'' \<mapsto> 3, ''Fm'' \<mapsto> 2, ''Fl'' \<mapsto> 1,
      ''Pef'' \<mapsto> 0, ''Pei'' \<mapsto> 0, ''Qe'' \<mapsto> 1]"

text \<open>
  A fit request on a one-point spectrum: the full parameter set with Linf and Pei
  disabled (locked), bounds as \<^verbatim>\<open>set_bounds\<close> leaves them (Pei unbounded), and a
  solver that evaluates the objective at the start vector and returns the start
  vector, as \<^verbatim>\<open>least_squares\<close> does when it makes no step. The second builder has
  only Linf disabled. \<open>returned r k\<close> is the value of key \<open>k\<close> in the dictionary
  that a fit returned, if it returned one.
\<close>

definition example_init :: "(string \<times> real) list" where
  "example_init =
     [(''Rinf'', 1), (''Rh'', 10), (''Rm'', 10), (''Rl'', 10), (''Linf'', 1), (''Re'', 10),
      (''Ph'', 0), (''Pm'', 0), (''Pl'', 0), (''Fh'', 10), (''Fm'', 10), (''Fl'', 1),
      (''Pef'', 0), (''Pei'', 4), (''Qe'', 1)]"

definition example_builder :: fit_builder where
  "example_builder =
     \<lparr>experiment_data = \<lparr>freq = [1], Z_real = [1], Z_imag = [0]\<rparr>,
      model_topology = Series,
      model_circuit = fresh_circuit,
      lower_bounds = (\<lambda>k. Some (if k = ''Pei'' then NegInf
                               else if startswith k ''P'' then Fin 0 else Fin 1)),
      upper_bounds = (\<lambda>k. Some (if k = ''Pei'' then PosInf
                               else if startswith k ''P'' then Fin 1 else Fin 10)),
      disabled_variables = {''Linf'', ''Pei''},
      gaussian_prior = True,
      previous_fit_params = [],
      base_weight = 3,
      exp_weight = - 15\<rparr>"

definition example_builder_free_pei :: fit_builder where
  "example_builder_free_pei = example_builder\<lparr>disabled_variables := {''Linf''}\<rparr>"

definition returned :: "params result \<Rightarrow> string \<Rightarrow> real option" where
  "returned r k = (case r of Inl e \<Rightarrow> None | Inr best_fit \<Rightarrow> best_fit k)"

definition start_point_solver :: solver where
  "start_point_solver objective x0 bounds = rbind (objective x0) (\<lambda>residual. Inr x0)"

text \<open>
  A series circuit that holds the Q values derived from \<open>example_params\<close> by an
  earlier evaluation (the only cache that the series topology reads), as
  \<^verbatim>\<open>run_model_manual\<close> has it when it computes the special frequencies.
\<close>

definition cached_circuit :: circuit where
  "cached_circuit = fresh_circuit\<lparr>q := [''Qh'' \<mapsto> 1 / 3, ''Qm'' \<mapsto> 1 / 2, ''Ql'' \<mapsto> 1 / 2]\<rparr>"

section \<open>Properties\<close>

lemma float_pow_pos: "0 < x \<Longrightarrow> \<exists>w. float_pow x p = Inr w \<and> 0 < w"
  by (simp add: float_pow_def)

lemma j_pow_nonzero: "j_pow p \<noteq> 0"
  by (simp add: j_pow_def)

lemma inductor_raises_iff:
  "inductor f L = Inl e \<longleftrightarrow> e = ValueError \<and> (L = 0 \<or> f < 0)"
  by (auto simp: inductor_def)

lemma q_from_f0_raises_iff:
  "q_from_f0 R F0 P = Inl e \<longleftrightarrow> e = ValueError \<and> (R = 0 \<or> F0 \<le> 0)"
proof (cases "R = 0 \<or> F0 \<le> 0")
  case True
  then show ?thesis by (auto simp: q_from_f0_def)
next
  case False
  then have "0 < 2 * pi * F0" by simp
  then obtain w where "float_pow (2 * pi * F0) P = Inr w" "0 < w"
    using float_pow_pos by blast
  with False show ?thesis
    by (auto simp: q_from_f0_def rbind_def py_div_def)
qed

lemma cpe_raises_iff:
  "cpe f Qc Pf Pi = Inl e \<longleftrightarrow>
     e = ValueError \<and> (Qc = 0 \<or> f < 0 \<or> (f = 0 \<and> 0 < Pf) \<or> (f = 0 \<and> Pf < 0))"
proof (cases "Qc = 0 \<or> f < 0 \<or> (f = 0 \<and> 0 < Pf) \<or> (f = 0 \<and> Pf < 0)")
  case True
  then show ?thesis by (auto simp: cpe_def)
next
  case False
  then have ok: "Qc \<noteq> 0" "0 \<le> f" "f = 0 \<longrightarrow> Pf = 0" by auto
  have "\<exists>w. float_pow (2 * pi * f) Pf = Inr w \<and> w \<noteq> 0"
  proof (cases "f = 0")
    case True
    with ok show ?thesis by (simp add: float_pow_def)
  next
    case False
    with ok have "0 < 2 * pi * f" by simp
    then show ?thesis using float_pow_pos by fastforce
  qed
  then obtain w where "float_pow (2 * pi * f) Pf = Inr w" "w \<noteq> 0" by blast
  with False ok show ?thesis
    by (auto simp: cpe_def rbind_def py_cdiv_def j_pow_nonzero)
qed

text \<open>
  C4. Each primitive raises a domain error exactly on its invalid inputs and returns a
  value otherwise (over the reals every returned value is finite; the divisions inside
  never meet a zero denominator, so no other exception occurs): the inductor raises
  iff \<open>L = 0\<close> or \<open>f < 0\<close>; the CPE raises iff \<open>Q = 0\<close>, or \<open>f < 0\<close>, or
  \<open>f = 0\<close> with \<open>Pf > 0\<close>, or \<open>f = 0\<close> with \<open>Pf < 0\<close>, so that \<open>f = 0\<close> with
  \<open>Pf = 0\<close> does not raise; Q-from-resonant-frequency raises iff \<open>R = 0\<close> or
  \<open>F0 \<le> 0\<close>.
\<close>

theorem primitive_domain_checks:
  "(inductor f L = Inl ValueError \<longleftrightarrow> L = 0 \<or> f < 0)
   \<and> (\<not> (L = 0 \<or> f < 0) \<longrightarrow> (\<exists>z. inductor f L = Inr z))
   \<and> (cpe f Qc Pf Pi = Inl ValueError \<longleftrightarrow>
        Qc = 0 \<or> f < 0 \<or> (f = 0 \<and> 0 < Pf) \<or> (f = 0 \<and> Pf < 0))
   \<and> (\<not> (Qc = 0 \<or> f < 0 \<or> (f = 0 \<and> 0 < Pf) \<or> (f = 0 \<and> Pf < 0))
        \<longrightarrow> (\<exists>z. cpe f Qc Pf Pi = Inr z))
   \<and> (Qc \<noteq> 0 \<longrightarrow> (\<exists>z. cpe 0 Qc 0 Pi = Inr z))
   \<and> (q_from_f0 R F0 P = Inl ValueError \<longleftrightarrow> R = 0 \<or> F0 \<le> 0)
   \<and> (\<not> (R = 0 \<or> F0 \<le> 0) \<longrightarrow> (\<exists>y. q_from_f0 R F0 P = Inr y))"
proof -
  have a: "\<And>(r :: 'a result). (\<forall>e. r \<noteq> Inl e) \<Longrightarrow> \<exists>z. r = Inr z"
    by (metis old.sum.exhaust)
  have i1: "inductor f L = Inl ValueError \<longleftrightarrow> L = 0 \<or> f < 0"
    by (simp add: inductor_raises_iff)
  have i2: "\<not> (L = 0 \<or> f < 0) \<longrightarrow> (\<exists>z. inductor f L = Inr z)"
    using a [of "inductor f L"] by (simp add: inductor_raises_iff)
  have c1: "cpe f Qc Pf Pi = Inl ValueError \<longleftrightarrow>
        Qc = 0 \<or> f < 0 \<or> (f = 0 \<and> 0 < Pf) \<or> (f = 0 \<and> Pf < 0)"
    by (simp add: cpe_raises_iff)
  have c2: "\<not> (Qc = 0 \<or> f < 0 \<or> (f = 0 \<and> 0 < Pf) \<or> (f = 0 \<and> Pf < 0))
        \<longrightarrow> (\<exists>z. cpe f Qc Pf Pi = Inr z)"
    using a [of "cpe f Qc Pf Pi"] by (simp add: cpe_raises_iff)
  have c3: "Qc \<noteq> 0 \<longrightarrow> (\<exists>z. cpe 0 Qc 0 Pi = Inr z)"
    using a [of "cpe 0 Qc 0 Pi"] by (simp add: cpe_raises_iff)
  have q1: "q_from_f0 R F0 P = Inl ValueError \<longleftrightarrow> R = 0 \<or> F0 \<le> 0"
    by (simp add: q_from_f0_raises_iff)
  have q2: "\<not> (R = 0 \<or> F0 \<le> 0) \<longrightarrow> (\<exists>y. q_from_f0 R F0 P = Inr y)"
    using a [of "q_from_f0 R F0 P"] by (simp add: q_from_f0_raises_iff)
  from i1 i2 c1 c2 c3 q1 q2 show ?thesis by blast
qed

theorem primitive_domain_checks_witness:
  "(\<exists>z. inductor 1 1 = Inr z)
   \<and> (\<exists>z. cpe 1 1 (1/2) (1/2) = Inr z)
   \<and> (\<exists>z. cpe 0 1 0 (1/2) = Inr z)
   \<and> (\<exists>y. q_from_f0 1 1 (1/2) = Inr y)
   \<and> inductor (- 1) 1 = Inl ValueError
   \<and> cpe 0 1 (1/2) (1/2) = Inl ValueError
   \<and> q_from_f0 1 0 (1/2) = Inl ValueError"
  using primitive_domain_checks [where f = 1 and L = 1 and Qc = 1 and Pf = "1/2"
      and Pi = "1/2" and R = 1 and ?F0.0 = 1 and P = "1/2"]
    primitive_domain_checks [where f = "- 1" and L = 1 and Qc = 1 and Pf = "1/2"
      and Pi = "1/2" and R = 1 and ?F0.0 = 0 and P = "1/2"]
    primitive_domain_checks [where f = 0 and L = 1 and Qc = 1 and Pf = "1/2"
      and Pi = "1/2" and R = 1 and ?F0.0 = 0 and P = "1/2"]
  by simp

subsection \<open>Reasoning about calls that may raise\<close>

lemma rbind_Inr [simp]: "rbind (Inr x) f = f x"
  by (simp add: rbind_def)

lemma rbind_Inl [simp]: "rbind (Inl e) f = Inl e"
  by (simp add: rbind_def)

lemma rbind_eq_Inr: "rbind m f = Inr y \<longleftrightarrow> (\<exists>x. m = Inr x \<and> f x = Inr y)"
  by (cases m) simp_all

lemma rbind_assoc: "rbind (rbind m f) g = rbind m (\<lambda>x. rbind (f x) g)"
  by (cases m) simp_all

lemma rbind_ext: "(\<And>x. f x = g x) \<Longrightarrow> rbind m f = rbind m g"
  by presburger

lemma map_sum_rbind: "map_sum id g (rbind m f) = rbind m (\<lambda>x. map_sum id g (f x))"
  by (cases m) simp_all

lemma mapM_all_Inr: "(\<And>x. x \<in> set xs \<Longrightarrow> f x = Inr (g x)) \<Longrightarrow> mapM f xs = Inr (map g xs)"
  by (induction xs) simp_all

lemma mapM_length: "mapM f xs = Inr ys \<Longrightarrow> length ys = length xs"
  by (induction xs arbitrary: ys) (auto simp: rbind_eq_Inr)

lemma lookup_Some: "par k = Some v \<Longrightarrow> lookup par k = Inr v"
  by (simp add: lookup_def)

lemma lookup_other: "k \<noteq> k' \<Longrightarrow> lookup (par(k' \<mapsto> x)) k = lookup par k"
  by (simp add: lookup_def)

subsection \<open>Evaluating the circuit at flat exponents\<close>

lemma q_from_f0_flat: "r \<noteq> 0 \<Longrightarrow> 0 < f0 \<Longrightarrow> q_from_f0 r f0 0 = Inr (1 / r)"
  by (simp add: q_from_f0_def float_pow_def py_div_def)

lemma cpe_flat: "Qc \<noteq> 0 \<Longrightarrow> 0 \<le> f \<Longrightarrow> cpe f Qc 0 0 = Inr (complex_of_real (1 / Qc))"
  by (simp add: cpe_def float_pow_def py_cdiv_def j_pow_def)

lemmas eval_defs = run_model_def run_model_series_def run_model_parallel_def run_rock_def
  rock_at_def series_rock_at_def parallel_rock_at_def flip_rinf_def refresh_secondary_def
  calculate_secondary_parameters_def lookup_def q_from_f0_flat cpe_flat py_div_def py_cdiv_def
  parallel_def parallel_arrays_def broadcast2_def inductor_def item_def Let_def
  example_params_def fresh_circuit_def power2_eq_square

subsection \<open>The negative-Rinf flag\<close>

lemma calc_flag:
  "calculate_secondary_parameters (c\<lparr>negative_rinf := b\<rparr>) par =
     map_sum id (\<lambda>c'. c'\<lparr>negative_rinf := b\<rparr>) (calculate_secondary_parameters c par)"
  unfolding calculate_secondary_parameters_def
  by (simp add: map_sum_rbind Let_def del: fun_upd_apply) (intro rbind_ext, simp)

lemma refresh_flag:
  "refresh_secondary (c\<lparr>negative_rinf := b\<rparr>) par old =
     map_sum id (\<lambda>c'. c'\<lparr>negative_rinf := b\<rparr>) (refresh_secondary c par old)"
  by (simp add: refresh_secondary_def calc_flag)

text \<open>
  The loop bodies of \<^verbatim>\<open>run_rock\<close> read neither the flag nor Rinf: this is why the
  second inversion, which \<^verbatim>\<open>run_model\<close> causes by calling \<^verbatim>\<open>run_rock\<close> on
  parameters it has inverted already, changes nothing.
\<close>

lemma rock_at_indep:
  "rock_at tp (c\<lparr>negative_rinf := b\<rparr>) par = rock_at tp c par"
  "rock_at tp c (par(''Rinf'' \<mapsto> x)) = rock_at tp c par"
  by (cases tp; rule ext;
      simp add: rock_at_def series_rock_at_def parallel_rock_at_def lookup_other)+

lemma run_rock_cached:
  assumes "par ''Rinf'' = Some x"
  shows "run_rock tp c par fs True = rbind (mapM (rock_at tp c par) fs) (\<lambda>z. Inr (z, c))"
  using assms
  by (simp add: run_rock_def flip_rinf_def refresh_secondary_def lookup_Some rock_at_indep)

lemma run_rock_flag:
  assumes "parameters ''Rinf'' = Some r"
  shows "run_rock tp (c\<lparr>negative_rinf := True\<rparr>) parameters fs old =
     map_sum id (\<lambda>(z, c'). (z, c'\<lparr>negative_rinf := True\<rparr>))
       (run_rock tp (c\<lparr>negative_rinf := False\<rparr>) (parameters(''Rinf'' \<mapsto> - r)) fs old)"
proof -
  let ?par = "parameters(''Rinf'' \<mapsto> - r)"
  show ?thesis
  proof (cases "refresh_secondary c ?par old")
    case (Inl e)
    with assms show ?thesis
      by (simp add: run_rock_def flip_rinf_def lookup_Some refresh_flag)
  next
    case (Inr c')
    with assms show ?thesis
      by (cases "mapM (rock_at tp c' ?par) fs")
        (simp_all add: run_rock_def flip_rinf_def lookup_Some refresh_flag rock_at_indep)
  qed
qed

lemma run_model_series_flag:
  assumes "parameters ''Rinf'' = Some r"
  shows "run_model_series (c\<lparr>negative_rinf := True\<rparr>) parameters fs old =
     map_sum id (\<lambda>(res, c'). (res, c'\<lparr>negative_rinf := True\<rparr>))
       (run_model_series (c\<lparr>negative_rinf := False\<rparr>) (parameters(''Rinf'' \<mapsto> - r)) fs old)"
proof -
  let ?par = "parameters(''Rinf'' \<mapsto> - r)"
  have p: "?par ''Rinf'' = Some (- r)" by simp
  note cached = run_rock_cached [where par = ?par and x = "- r", OF p]
  show ?thesis
  proof (cases "refresh_secondary c ?par old")
    case (Inl e)
    with assms show ?thesis
      by (simp add: run_model_series_def flip_rinf_def lookup_Some refresh_flag)
  next
    case (Inr c')
    with assms show ?thesis
      by (simp add: run_model_series_def flip_rinf_def lookup_Some refresh_flag cached
          rbind_assoc map_sum_rbind rock_at_indep(1) del: fun_upd_apply)
  qed
qed

lemma run_model_parallel_flag:
  assumes "parameters ''Rinf'' = Some r"
  shows "run_model_parallel (c\<lparr>negative_rinf := True\<rparr>) parameters fs old =
     map_sum id (\<lambda>(res, c'). (res, c'\<lparr>negative_rinf := True\<rparr>))
       (run_model_parallel (c\<lparr>negative_rinf := False\<rparr>) (parameters(''Rinf'' \<mapsto> - r)) fs old)"
proof -
  let ?par = "parameters(''Rinf'' \<mapsto> - r)"
  have p: "?par ''Rinf'' = Some (- r)" by simp
  note cached = run_rock_cached [where par = ?par and x = "- r", OF p]
  show ?thesis
  proof (cases "refresh_secondary c ?par old")
    case (Inl e)
    with assms show ?thesis
      by (simp add: run_model_parallel_def flip_rinf_def lookup_Some refresh_flag)
  next
    case (Inr c')
    with assms show ?thesis
      by (simp add: run_model_parallel_def flip_rinf_def lookup_Some refresh_flag cached
          rbind_assoc map_sum_rbind Let_def rock_at_indep(1) del: fun_upd_apply)
  qed
qed

lemma map_sum_fst_comp:
  "map_sum id fst (map_sum id (\<lambda>(res, c'). (res, h c')) m) = map_sum id fst m"
  by (cases m) auto

text \<open>
  C8. With the negative-Rinf flag set, \<^verbatim>\<open>run_model\<close> and \<^verbatim>\<open>run_rock\<close> return what
  they return with the flag clear on the parameter set whose Rinf is replaced by its
  negation: the same impedance arrays when the evaluation succeeds, and the same
  exception when it does not. This holds for both topologies and for both values of
  \<^verbatim>\<open>old_par_second\<close>, so the inversion precedes every other computation of the call,
  the derivation of the secondary parameters included.
\<close>

theorem negative_rinf_inverts_first:
  assumes "parameters ''Rinf'' = Some r"
  shows "map_sum id fst (run_model tp (c\<lparr>negative_rinf := True\<rparr>) parameters freq_array old)
         = map_sum id fst
             (run_model tp (c\<lparr>negative_rinf := False\<rparr>) (parameters(''Rinf'' \<mapsto> - r))
                freq_array old)
       \<and> map_sum id fst (run_rock tp (c\<lparr>negative_rinf := True\<rparr>) parameters freq_array old)
         = map_sum id fst
             (run_rock tp (c\<lparr>negative_rinf := False\<rparr>) (parameters(''Rinf'' \<mapsto> - r))
                freq_array old)"
proof (cases tp)
  case Series
  then show ?thesis
    using run_model_series_flag [where parameters = parameters and r = r, OF assms]
      run_rock_flag [where parameters = parameters and r = r, OF assms]
    by (simp add: run_model_def map_sum_fst_comp)
next
  case Parallel
  then show ?thesis
    using run_model_parallel_flag [where parameters = parameters and r = r, OF assms]
      run_rock_flag [where parameters = parameters and r = r, OF assms]
    by (simp add: run_model_def map_sum_fst_comp)
qed

lemma example_series_negative:
  "map_sum id fst (run_model Series (fresh_circuit\<lparr>negative_rinf := False\<rparr>)
       (example_params(''Rinf'' \<mapsto> - 1)) [1] False)
     = Inr ([complex_of_real (2 * pi) * \<i> + complex_of_real (19 / 6)], [2])"
  by (simp add: eval_defs)

theorem negative_rinf_inverts_first_witness:
  "example_params ''Rinf'' = Some 1
   \<and> map_sum id fst (run_model Series (fresh_circuit\<lparr>negative_rinf := True\<rparr>)
        example_params [1] False)
     = Inr ([complex_of_real (2 * pi) * \<i> + complex_of_real (19 / 6)], [2])"
proof -
  have h: "example_params ''Rinf'' = Some 1" by (simp add: example_params_def)
  from negative_rinf_inverts_first [where parameters = example_params and r = 1
      and tp = Series and c = fresh_circuit and freq_array = "[1]" and old = False, OF h]
  show ?thesis using h by (simp add: example_series_negative)
qed

subsection \<open>Scaling and descaling\<close>

lemma descale_loop_map:
  "length pre = n \<Longrightarrow>
   descale_loop (enumerate n ks) (map g (pre @ ks)) acc =
     Inr (\<lambda>k. if k \<in> set ks then Some (descale_value k (g k)) else acc k)"
proof (induction ks arbitrary: n pre acc)
  case Nil
  then show ?case by simp
next
  case (Cons k ks)
  have "descale_loop (enumerate (Suc n) ks) (map g ((pre @ [k]) @ ks))
          (acc(k \<mapsto> descale_value k (g k)))
      = Inr (\<lambda>k'. if k' \<in> set ks then Some (descale_value k' (g k'))
                  else (acc(k \<mapsto> descale_value k (g k))) k')"
    using Cons.prems by (intro Cons.IH) simp
  with Cons.prems show ?case
    by (auto simp: item_def nth_append fun_eq_iff)
qed

lemma descale_loop_dom:
  "descale_loop es x acc = Inr d \<Longrightarrow> dom d \<subseteq> dom acc \<union> snd ` set es"
proof (induction es arbitrary: acc)
  case Nil
  then show ?case by simp
next
  case (Cons e es)
  obtain i key where e: "e = (i, key)" by (cases e)
  from Cons.prems obtain xi where
    "descale_loop es x (acc(key \<mapsto> descale_value key xi)) = Inr d"
    by (auto simp: e rbind_eq_Inr)
  from Cons.IH [OF this] show ?case by (auto simp: e)
qed

lemma descale_params_dom: "descale_params keys x = Inr d \<Longrightarrow> dom d \<subseteq> set keys"
  using descale_loop_dom [of "enumerate 0 keys" x Map.empty d]
  by (force simp: descale_params_def in_set_enumerate_eq)

text \<open>
  C9. For every list of keys and every parameter mapping that gives each listed key
  a value, strictly positive when the key does not start with \<open>P\<close>, scaling succeeds
  and descaling the scaled vector returns exactly the mapping restricted to the listed
  keys (in exact real arithmetic).
\<close>

theorem scale_descale_roundtrip:
  assumes "\<forall>k \<in> set keys. \<exists>v. params k = Some v \<and> (\<not> startswith k ''P'' \<longrightarrow> 0 < v)"
  shows "\<exists>x. scale_params keys params = Inr x
             \<and> descale_params keys x = Inr (params |` set keys)"
proof -
  define g where
    "g k = (if startswith k ''P'' then the (params k) * 10 else log 10 (the (params k)))" for k
  have sc: "scale_params keys params = Inr (map g keys)"
    unfolding scale_params_def
  proof (rule mapM_all_Inr)
    fix k assume "k \<in> set keys"
    with assms obtain v where "params k = Some v" "\<not> startswith k ''P'' \<longrightarrow> 0 < v" by blast
    then show "scale_value params k = Inr (g k)"
      by (auto simp: scale_value_def lookup_def g_def)
  qed
  have "descale_params keys (map g keys) =
      Inr (\<lambda>k. if k \<in> set keys then Some (descale_value k (g k)) else None)"
    using descale_loop_map [of "[]" 0 keys g Map.empty] by (simp add: descale_params_def)
  moreover have "(\<lambda>k. if k \<in> set keys then Some (descale_value k (g k)) else None)
      = params |` set keys"
  proof
    fix k
    show "(if k \<in> set keys then Some (descale_value k (g k)) else None)
        = (params |` set keys) k"
    proof (cases "k \<in> set keys")
      case True
      with assms obtain v where "params k = Some v" "\<not> startswith k ''P'' \<longrightarrow> 0 < v" by blast
      with True show ?thesis by (auto simp: descale_value_def g_def restrict_map_def)
    next
      case False
      then show ?thesis by (simp add: restrict_map_def)
    qed
  qed
  ultimately show ?thesis using sc by simp
qed

theorem scale_descale_roundtrip_witness:
  "\<exists>x. scale_params [''Rinf'', ''Pei'', ''Fh'']
          [''Rinf'' \<mapsto> 2, ''Pei'' \<mapsto> - 1 / 2, ''Fh'' \<mapsto> 100, ''Qe'' \<mapsto> 1] = Inr x
      \<and> descale_params [''Rinf'', ''Pei'', ''Fh''] x
          = Inr ([''Rinf'' \<mapsto> 2, ''Pei'' \<mapsto> - 1 / 2, ''Fh'' \<mapsto> 100, ''Qe'' \<mapsto> 1]
                  |` set [''Rinf'', ''Pei'', ''Fh''])"
  using scale_descale_roundtrip [of "[''Rinf'', ''Pei'', ''Fh'']"
      "[''Rinf'' \<mapsto> 2, ''Pei'' \<mapsto> - 1 / 2, ''Fh'' \<mapsto> 100, ''Qe'' \<mapsto> 1]"]
  by (simp add: startswith_def)

subsection \<open>The fit: locked parameters and the wrapped angle\<close>

lemma fit_model_Inr:
  assumes "fst (fit_model fb solve rf init w) = Inr best_fit"
  obtains x0 lo hi rx free where
    "scale_params (free_keys_of fb init) (map_of init) = Inr x0"
    "build_bounds fb (free_keys_of fb init) = Inr (lo, hi)"
    "solve (residual_wrapper fb rf (free_keys_of fb init) (locked_params_of fb init) x0 lo hi w)
       x0 (lo, hi) = Inr rx"
    "descale_params (free_keys_of fb init) rx = Inr free"
    "best_fit = (case (locked_params_of fb init ++ free) ''Pei'' of
                   Some pei \<Rightarrow> (locked_params_of fb init ++ free)(''Pei'' \<mapsto> float_mod (pei + 1) 4 - 1)
                 | None \<Rightarrow> locked_params_of fb init ++ free)"
  using assms
  by (auto simp: fit_model_def Let_def rbind_eq_Inr split: prod.splits)

lemma float_mod_range: "0 \<le> float_mod a 4 \<and> float_mod a 4 < 4"
proof -
  have "of_int \<lfloor>a / 4\<rfloor> \<le> a / 4" "a / 4 < of_int \<lfloor>a / 4\<rfloor> + 1"
    by linarith+
  then show ?thesis unfolding float_mod_def by linarith
qed

lemma float_mod_id: "0 \<le> a \<Longrightarrow> a < 4 \<Longrightarrow> float_mod a 4 = a"
proof -
  assume "0 \<le> a" "a < 4"
  then have "\<lfloor>a / 4\<rfloor> = 0" by (simp add: floor_eq_iff)
  then show ?thesis by (simp add: float_mod_def)
qed

lemma locked_value:
  assumes "k \<in> disabled_variables fb" "map_of init k = Some v"
    and "descale_params (free_keys_of fb init) rx = Inr free"
  shows "(locked_params_of fb init ++ free) k = Some v"
proof -
  from assms(1) have "k \<notin> set (free_keys_of fb init)" by (simp add: free_keys_of_def)
  with descale_params_dom [OF assms(3)] have "free k = None" by blast
  with assms(1,2) show ?thesis by (simp add: map_add_def locked_params_of_def)
qed

lemma fit_model_locked:
  assumes "k \<in> disabled_variables fb" "map_of init k = Some v"
    and "fst (fit_model fb solve rf init w) = Inr best_fit"
  shows "best_fit k = Some (if k = ''Pei'' then float_mod (v + 1) 4 - 1 else v)"
proof -
  from assms(3) obtain x0 lo hi rx free where
    d: "descale_params (free_keys_of fb init) rx = Inr free"
    and best: "best_fit = (case (locked_params_of fb init ++ free) ''Pei'' of
                   Some pei \<Rightarrow> (locked_params_of fb init ++ free)(''Pei'' \<mapsto> float_mod (pei + 1) 4 - 1)
                 | None \<Rightarrow> locked_params_of fb init ++ free)"
    by (rule fit_model_Inr)
  from locked_value [OF assms(1,2) d] have "(locked_params_of fb init ++ free) k = Some v" .
  with best show ?thesis
    by (cases "(locked_params_of fb init ++ free) ''Pei''") auto
qed

subsection \<open>The example fit, evaluated\<close>

lemma example_free_keys:
  "free_keys_of example_builder example_init =
     [''Rinf'', ''Rh'', ''Rm'', ''Rl'', ''Re'', ''Ph'', ''Pm'', ''Pl'', ''Fh'', ''Fm'', ''Fl'',
      ''Pef'', ''Qe'']"
  by (simp add: free_keys_of_def example_builder_def example_init_def)

lemma example_x0:
  "scale_params (free_keys_of example_builder example_init) (map_of example_init) =
     Inr [0, 1, 1, 1, 1, 0, 0, 0, 1, 1, 0, 0, 0]"
  by (simp only: example_free_keys)
    (simp add: scale_params_def scale_value_def lookup_def startswith_def example_init_def)

lemma example_bounds:
  "build_bounds example_builder (free_keys_of example_builder example_init) =
     Inr ([Fin 0, Fin 0, Fin 0, Fin 0, Fin 0, Fin 0, Fin 0, Fin 0, Fin 0, Fin 0, Fin 0, Fin 0, Fin 0],
          [Fin 1, Fin 1, Fin 1, Fin 1, Fin 1, Fin 10, Fin 10, Fin 10, Fin 1, Fin 1, Fin 1, Fin 10, Fin 1])"
  by (simp only: example_free_keys)
    (simp add: build_bounds_def scale_bound_def startswith_def example_builder_def)

lemma j_pow_4: "j_pow 4 = 1"
  by (simp add: j_pow_def)

lemma cpe_flat_turn: "Qc \<noteq> 0 \<Longrightarrow> 0 \<le> f \<Longrightarrow> cpe f Qc 0 4 = Inr (complex_of_real (1 / Qc))"
  by (simp add: cpe_def float_pow_def py_cdiv_def j_pow_4)

lemmas fit_eval_defs = residual_wrapper_def residual_cole_def weight_function_def np_sub_def
  compute_gaussian_prior_def compute_invalid_guess_penalty_def invalid_guess_def
  bound_sub_def bound_times_def div_by_bound_def locked_params_of_def map_add_def
  descale_params_def descale_value_def startswith_def example_builder_def example_init_def
  cpe_flat_turn

lemma np_log10_pos: "0 < x \<Longrightarrow> np_log10 x = Inr (log 10 x)"
  by (simp add: np_log10_def)

lemma pos_sum: "0 < a \<Longrightarrow> 0 < b \<Longrightarrow> (0 < a + b) = True" for a b :: real
  by simp

lemmas bode_eval_defs = residual_wrapper_def residual_bode_def weight_function_def np_sub_def
  np_hypot_def phase_deg_def arctan2_def np_log10_pos pos_sum
  compute_gaussian_prior_def compute_invalid_guess_penalty_def invalid_guess_def
  bound_sub_def bound_times_def div_by_bound_def locked_params_of_def map_add_def
  descale_params_def descale_value_def startswith_def example_builder_def example_init_def
  cpe_flat_turn

lemma fit_from_start_point:
  assumes "scale_params (free_keys_of fb init) (map_of init) = Inr x0"
    and "build_bounds fb (free_keys_of fb init) = Inr (lo, hi)"
    and "residual_wrapper fb rf (free_keys_of fb init) (locked_params_of fb init) x0 lo hi w x0
           = Inr r"
  shows "fst (fit_model fb start_point_solver rf init w) =
      rbind (descale_params (free_keys_of fb init) x0) (\<lambda>best_fit_free.
        let best_fit = locked_params_of fb init ++ best_fit_free in
        Inr (case best_fit ''Pei'' of
               Some pei \<Rightarrow> best_fit(''Pei'' \<mapsto> float_mod (pei + 1) 4 - 1)
             | None \<Rightarrow> best_fit))"
  using assms by (simp add: fit_model_def start_point_solver_def)

lemma example_objective:
  "\<exists>r. residual_wrapper example_builder (residual_cole example_builder)
         (free_keys_of example_builder example_init)
         (locked_params_of example_builder example_init)
         [0, 1, 1, 1, 1, 0, 0, 0, 1, 1, 0, 0, 0]
         [Fin 0, Fin 0, Fin 0, Fin 0, Fin 0, Fin 0, Fin 0, Fin 0, Fin 0, Fin 0, Fin 0, Fin 0, Fin 0]
         [Fin 1, Fin 1, Fin 1, Fin 1, Fin 1, Fin 10, Fin 10, Fin 10, Fin 1, Fin 1, Fin 1, Fin 10, Fin 1]
         400 [0, 1, 1, 1, 1, 0, 0, 0, 1, 1, 0, 0, 0] = Inr r"
  by (simp only: example_free_keys) (simp add: fit_eval_defs eval_defs)

lemma example_objective_bode:
  "\<exists>r. residual_wrapper example_builder (residual_bode example_builder)
         (free_keys_of example_builder example_init)
         (locked_params_of example_builder example_init)
         [0, 1, 1, 1, 1, 0, 0, 0, 1, 1, 0, 0, 0]
         [Fin 0, Fin 0, Fin 0, Fin 0, Fin 0, Fin 0, Fin 0, Fin 0, Fin 0, Fin 0, Fin 0, Fin 0, Fin 0]
         [Fin 1, Fin 1, Fin 1, Fin 1, Fin 1, Fin 10, Fin 10, Fin 10, Fin 1, Fin 1, Fin 1, Fin 10, Fin 1]
         400 [0, 1, 1, 1, 1, 0, 0, 0, 1, 1, 0, 0, 0] = Inr r"
  by (simp only: example_free_keys) (simp add: bode_eval_defs eval_defs)

lemma example_merge:
  "\<exists>b. rbind (descale_params (free_keys_of example_builder example_init)
               [0, 1, 1, 1, 1, 0, 0, 0, 1, 1, 0, 0, 0]) (\<lambda>best_fit_free.
        let best_fit = locked_params_of example_builder example_init ++ best_fit_free in
        Inr (case best_fit ''Pei'' of
               Some pei \<Rightarrow> best_fit(''Pei'' \<mapsto> float_mod (pei + 1) 4 - 1)
             | None \<Rightarrow> best_fit)) = Inr b
     \<and> b ''Pei'' = Some 0 \<and> b ''Linf'' = Some 1"
  by (simp only: example_free_keys)
    (simp add: descale_params_def descale_value_def item_def startswith_def
      locked_params_of_def map_add_def example_builder_def example_init_def float_mod_def)

lemma example_fit:
  "\<exists>b. fst (fit_model example_builder start_point_solver (residual_cole example_builder)
              example_init 400) = Inr b
     \<and> fst (fit_model_cole example_builder start_point_solver example_init 400) = Inr b
     \<and> fst (fit_model_bode example_builder start_point_solver example_init 400) = Inr b
     \<and> b ''Pei'' = Some 0 \<and> b ''Linf'' = Some 1"
proof -
  from example_objective obtain r where r: "residual_wrapper example_builder
         (residual_cole example_builder)
         (free_keys_of example_builder example_init)
         (locked_params_of example_builder example_init)
         [0, 1, 1, 1, 1, 0, 0, 0, 1, 1, 0, 0, 0]
         [Fin 0, Fin 0, Fin 0, Fin 0, Fin 0, Fin 0, Fin 0, Fin 0, Fin 0, Fin 0, Fin 0, Fin 0, Fin 0]
         [Fin 1, Fin 1, Fin 1, Fin 1, Fin 1, Fin 10, Fin 10, Fin 10, Fin 1, Fin 1, Fin 1, Fin 10, Fin 1]
         400 [0, 1, 1, 1, 1, 0, 0, 0, 1, 1, 0, 0, 0] = Inr r" ..
  from example_objective_bode obtain r' where r': "residual_wrapper example_builder
         (residual_bode example_builder)
         (free_keys_of example_builder example_init)
         (locked_params_of example_builder example_init)
         [0, 1, 1, 1, 1, 0, 0, 0, 1, 1, 0, 0, 0]
         [Fin 0, Fin 0, Fin 0, Fin 0, Fin 0, Fin 0, Fin 0, Fin 0, Fin 0, Fin 0, Fin 0, Fin 0, Fin 0]
         [Fin 1, Fin 1, Fin 1, Fin 1, Fin 1, Fin 10, Fin 10, Fin 10, Fin 1, Fin 1, Fin 1, Fin 10, Fin 1]
         400 [0, 1, 1, 1, 1, 0, 0, 0, 1, 1, 0, 0, 0] = Inr r'" ..
  from example_merge obtain b where b: "rbind (descale_params
        (free_keys_of example_builder example_init)
               [0, 1, 1, 1, 1, 0, 0, 0, 1, 1, 0, 0, 0]) (\<lambda>best_fit_free.
        let best_fit = locked_params_of example_builder example_init ++ best_fit_free in
        Inr (case best_fit ''Pei'' of
               Some pei \<Rightarrow> best_fit(''Pei'' \<mapsto> float_mod (pei + 1) 4 - 1)
             | None \<Rightarrow> best_fit)) = Inr b" and v: "b ''Pei'' = Some 0" "b ''Linf'' = Some 1"
    by blast
  have "fst (fit_model example_builder start_point_solver (residual_cole example_builder)
              example_init 400) = Inr b"
    using fit_from_start_point [OF example_x0 example_bounds r] b by simp
  moreover have "fst (fit_model example_builder start_point_solver
              (residual_bode example_builder) example_init 400) = Inr b"
    using fit_from_start_point [OF example_x0 example_bounds r'] b by simp
  ultimately show ?thesis using v
    by (auto simp: fit_model_cole_def fit_model_bode_def)
qed

lemma free_pei_keys:
  "free_keys_of example_builder_free_pei example_init =
     [''Rinf'', ''Rh'', ''Rm'', ''Rl'', ''Re'', ''Ph'', ''Pm'', ''Pl'', ''Fh'', ''Fm'', ''Fl'',
      ''Pef'', ''Pei'', ''Qe'']"
  by (simp add: free_keys_of_def example_builder_free_pei_def example_builder_def
      example_init_def)

lemma free_pei_x0:
  "scale_params (free_keys_of example_builder_free_pei example_init) (map_of example_init) =
     Inr [0, 1, 1, 1, 1, 0, 0, 0, 1, 1, 0, 0, 40, 0]"
  by (simp only: free_pei_keys)
    (simp add: scale_params_def scale_value_def lookup_def startswith_def example_init_def)

lemma free_pei_bounds:
  "build_bounds example_builder_free_pei (free_keys_of example_builder_free_pei example_init) =
     Inr ([Fin 0, Fin 0, Fin 0, Fin 0, Fin 0, Fin 0, Fin 0, Fin 0, Fin 0, Fin 0, Fin 0, Fin 0,
           NegInf, Fin 0],
          [Fin 1, Fin 1, Fin 1, Fin 1, Fin 1, Fin 10, Fin 10, Fin 10, Fin 1, Fin 1, Fin 1, Fin 10,
           PosInf, Fin 1])"
  by (simp only: free_pei_keys)
    (simp add: build_bounds_def scale_bound_def startswith_def example_builder_free_pei_def
      example_builder_def)

lemma free_pei_objective:
  "\<exists>r. residual_wrapper example_builder_free_pei (residual_cole example_builder_free_pei)
         (free_keys_of example_builder_free_pei example_init)
         (locked_params_of example_builder_free_pei example_init)
         [0, 1, 1, 1, 1, 0, 0, 0, 1, 1, 0, 0, 40, 0]
         [Fin 0, Fin 0, Fin 0, Fin 0, Fin 0, Fin 0, Fin 0, Fin 0, Fin 0, Fin 0, Fin 0, Fin 0,
           NegInf, Fin 0]
         [Fin 1, Fin 1, Fin 1, Fin 1, Fin 1, Fin 10, Fin 10, Fin 10, Fin 1, Fin 1, Fin 1, Fin 10,
           PosInf, Fin 1]
         400 [0, 1, 1, 1, 1, 0, 0, 0, 1, 1, 0, 0, 40, 0] = Inr r"
  by (simp only: free_pei_keys)
    (simp add: fit_eval_defs eval_defs example_builder_free_pei_def)

lemma free_pei_merge:
  "\<exists>free. descale_params (free_keys_of example_builder_free_pei example_init)
               [0, 1, 1, 1, 1, 0, 0, 0, 1, 1, 0, 0, 40, 0] = Inr free
     \<and> (locked_params_of example_builder_free_pei example_init ++ free) ''Pei'' = Some 4"
  by (simp only: free_pei_keys)
    (simp add: descale_params_def descale_value_def item_def startswith_def
      locked_params_of_def map_add_def example_builder_free_pei_def example_builder_def
      example_init_def)

text \<open>
  C1 (as amended). For each of \<^verbatim>\<open>fit_model\<close>, \<^verbatim>\<open>fit_model_cole\<close> and
  \<^verbatim>\<open>fit_model_bode\<close>, with any solver and any residual function: when the call
  returns, every disabled key that the initial parameter set contains is in the returned
  set; its value is the caller's initial value for every key other than Pei, and for Pei
  it is the initial value wrapped by \<open>((v + 1) mod 4) - 1\<close>. In exact real arithmetic
  the wrapped value is the initial value itself if and only if the initial value lies in
  \<open>[-1, 3)\<close>.
\<close>

theorem locked_parameters_echoed:
  assumes "k \<in> disabled_variables fb" and "map_of initial_params k = Some v"
  shows "(fst (fit_model fb solve residual_func initial_params prior_weight) = Inr best_fit
            \<longrightarrow> best_fit k = Some (if k = ''Pei'' then float_mod (v + 1) 4 - 1 else v))
       \<and> (fst (fit_model_cole fb solve initial_params prior_weight) = Inr best_fit
            \<longrightarrow> best_fit k = Some (if k = ''Pei'' then float_mod (v + 1) 4 - 1 else v))
       \<and> (fst (fit_model_bode fb solve initial_params prior_weight) = Inr best_fit
            \<longrightarrow> best_fit k = Some (if k = ''Pei'' then float_mod (v + 1) 4 - 1 else v))
       \<and> (float_mod (v + 1) 4 - 1 = v \<longleftrightarrow> - 1 \<le> v \<and> v < 3)"
proof -
  have wrap: "float_mod (v + 1) 4 - 1 = v \<longleftrightarrow> - 1 \<le> v \<and> v < 3"
  proof
    assume "float_mod (v + 1) 4 - 1 = v"
    with float_mod_range [of "v + 1"] show "- 1 \<le> v \<and> v < 3" by linarith
  next
    assume "- 1 \<le> v \<and> v < 3"
    with float_mod_id [of "v + 1"] show "float_mod (v + 1) 4 - 1 = v" by simp
  qed
  with fit_model_locked [OF assms] show ?thesis
    by (auto simp: fit_model_cole_def fit_model_bode_def)
qed

theorem locked_parameters_echoed_witness:
  "''Linf'' \<in> disabled_variables example_builder
   \<and> map_of example_init ''Linf'' = Some 1
   \<and> returned (fst (fit_model example_builder start_point_solver
        (residual_cole example_builder) example_init 400)) ''Linf'' = Some 1
   \<and> returned (fst (fit_model_cole example_builder start_point_solver example_init 400)) ''Linf''
       = Some 1
   \<and> returned (fst (fit_model_bode example_builder start_point_solver example_init 400)) ''Linf''
       = Some 1
   \<and> float_mod (1 + 1) 4 - 1 = 1
   \<and> ''Pei'' \<in> disabled_variables example_builder
   \<and> map_of example_init ''Pei'' = Some 4
   \<and> returned (fst (fit_model_cole example_builder start_point_solver example_init 400)) ''Pei''
       = Some (float_mod (4 + 1) 4 - 1)
   \<and> float_mod (4 + 1) 4 - 1 \<noteq> 4"
proof -
  have h: "''Linf'' \<in> disabled_variables example_builder" "map_of example_init ''Linf'' = Some 1"
    by (simp_all add: example_builder_def example_init_def)
  have h': "''Pei'' \<in> disabled_variables example_builder" "map_of example_init ''Pei'' = Some 4"
    by (simp_all add: example_builder_def example_init_def)
  from example_fit obtain b where
    b: "fst (fit_model example_builder start_point_solver (residual_cole example_builder)
              example_init 400) = Inr b"
      "fst (fit_model_cole example_builder start_point_solver example_init 400) = Inr b"
      "fst (fit_model_bode example_builder start_point_solver example_init 400) = Inr b"
    by blast
  from locked_parameters_echoed [where k = "''Linf''" and fb = example_builder
      and initial_params = example_init and v = 1 and solve = start_point_solver
      and residual_func = "residual_cole example_builder"
      and prior_weight = 400 and best_fit = b, OF h] b
  have l: "b ''Linf'' = Some 1" "float_mod (1 + 1) 4 - 1 = (1::real)" by simp_all
  from locked_parameters_echoed [where k = "''Pei''" and fb = example_builder
      and initial_params = example_init and v = 4 and solve = start_point_solver
      and residual_func = "residual_cole example_builder"
      and prior_weight = 400 and best_fit = b, OF h'] b
  have p: "b ''Pei'' = Some (float_mod (4 + 1) 4 - 1)" "float_mod (4 + 1) 4 - 1 \<noteq> (4::real)"
    by simp_all
  from h h' b l p show ?thesis by (simp add: returned_def)
qed

text \<open>
  The claim as stated fails for a locked Pei outside \<open>[-1, 3)\<close>: locked at 4, it is
  returned as 0.
\<close>

theorem locked_pei_counterexample:
  "''Pei'' \<in> disabled_variables example_builder
   \<and> map_of example_init ''Pei'' = Some 4
   \<and> returned (fst (fit_model_cole example_builder start_point_solver example_init 400)) ''Pei''
       = Some 0"
  using example_fit
  by (auto simp: returned_def example_builder_def example_init_def)

text \<open>
  C3. Whenever a fit returns a parameter set that contains Pei, the returned value is
  \<open>((x + 1) mod 4) - 1\<close> for the value \<open>x\<close> that Pei has after the solver's
  vector is descaled and merged with the locked parameters, and it lies in \<open>[-1, 3)\<close>
  (over the reals, where the remainder is exact).
\<close>

theorem pei_wrapped_after_fit:
  assumes "fst (fit_model fb solve residual_func initial_params prior_weight) = Inr best_fit"
    and "best_fit ''Pei'' = Some y"
  shows "\<exists>x0 lower upper result_x best_fit_free x.
           scale_params (free_keys_of fb initial_params) (map_of initial_params) = Inr x0
         \<and> build_bounds fb (free_keys_of fb initial_params) = Inr (lower, upper)
         \<and> solve (residual_wrapper fb residual_func (free_keys_of fb initial_params)
                    (locked_params_of fb initial_params) x0 lower upper prior_weight)
              x0 (lower, upper) = Inr result_x
         \<and> descale_params (free_keys_of fb initial_params) result_x = Inr best_fit_free
         \<and> (locked_params_of fb initial_params ++ best_fit_free) ''Pei'' = Some x
         \<and> y = float_mod (x + 1) 4 - 1
         \<and> - 1 \<le> y \<and> y < 3"
proof -
  from assms(1) obtain x0 lo hi rx free where
    s: "scale_params (free_keys_of fb initial_params) (map_of initial_params) = Inr x0"
    and b: "build_bounds fb (free_keys_of fb initial_params) = Inr (lo, hi)"
    and v: "solve (residual_wrapper fb residual_func (free_keys_of fb initial_params)
                (locked_params_of fb initial_params) x0 lo hi prior_weight) x0 (lo, hi) = Inr rx"
    and d: "descale_params (free_keys_of fb initial_params) rx = Inr free"
    and best: "best_fit = (case (locked_params_of fb initial_params ++ free) ''Pei'' of
                   Some pei \<Rightarrow> (locked_params_of fb initial_params ++ free)
                     (''Pei'' \<mapsto> float_mod (pei + 1) 4 - 1)
                 | None \<Rightarrow> locked_params_of fb initial_params ++ free)"
    by (rule fit_model_Inr)
  from best assms(2) obtain x where
    x: "(locked_params_of fb initial_params ++ free) ''Pei'' = Some x"
    and y: "y = float_mod (x + 1) 4 - 1"
    by (cases "(locked_params_of fb initial_params ++ free) ''Pei''") auto
  from float_mod_range [of "x + 1"] y have r: "- 1 \<le> y \<and> y < 3" by simp
  show ?thesis
    apply (rule exI [of _ x0], rule exI [of _ lo], rule exI [of _ hi])
    apply (rule exI [of _ rx], rule exI [of _ free], rule exI [of _ x])
    using s b v d x y r apply simp
    done
qed

theorem pei_wrapped_after_fit_witness:
  "\<exists>best_fit x. fst (fit_model_cole example_builder_free_pei start_point_solver example_init 400)
       = Inr best_fit
     \<and> best_fit ''Pei'' = Some 0
     \<and> (0::real) = float_mod (x + 1) 4 - 1"
proof -
  from free_pei_objective obtain r where r: "residual_wrapper example_builder_free_pei
         (residual_cole example_builder_free_pei)
         (free_keys_of example_builder_free_pei example_init)
         (locked_params_of example_builder_free_pei example_init)
         [0, 1, 1, 1, 1, 0, 0, 0, 1, 1, 0, 0, 40, 0]
         [Fin 0, Fin 0, Fin 0, Fin 0, Fin 0, Fin 0, Fin 0, Fin 0, Fin 0, Fin 0, Fin 0, Fin 0,
           NegInf, Fin 0]
         [Fin 1, Fin 1, Fin 1, Fin 1, Fin 1, Fin 10, Fin 10, Fin 10, Fin 1, Fin 1, Fin 1, Fin 10,
           PosInf, Fin 1]
         400 [0, 1, 1, 1, 1, 0, 0, 0, 1, 1, 0, 0, 40, 0] = Inr r" ..
  from free_pei_merge obtain free where
    dm: "descale_params (free_keys_of example_builder_free_pei example_init)
               [0, 1, 1, 1, 1, 0, 0, 0, 1, 1, 0, 0, 40, 0] = Inr free
     \<and> (locked_params_of example_builder_free_pei example_init ++ free) ''Pei'' = Some 4" ..
  note d = dm [THEN conjunct1] and m = dm [THEN conjunct2]
  define best_fit where
    "best_fit = (locked_params_of example_builder_free_pei example_init ++ free)
       (''Pei'' \<mapsto> float_mod (4 + 1) 4 - 1)"
  have fit: "fst (fit_model example_builder_free_pei start_point_solver
      (residual_cole example_builder_free_pei) example_init 400) = Inr best_fit"
    using fit_from_start_point [OF free_pei_x0 free_pei_bounds r] d m
    by (simp add: best_fit_def)
  have pei: "best_fit ''Pei'' = Some 0"
    by (simp add: best_fit_def float_mod_def)
  from pei_wrapped_after_fit [OF fit pei]
  obtain x where "(0::real) = float_mod (x + 1) 4 - 1" by blast
  with fit pei show ?thesis by (auto simp: fit_model_cole_def)
qed

subsection \<open>The objective of the fit\<close>


lemma invalid_penalty_value:
  assumes "params ''Fh'' = Some Fh" "params ''Fm'' = Some Fm" "params ''Fl'' = Some Fl"
  shows "compute_invalid_guess_penalty params w =
     Inr [max 0 (Fm - Fh) * 10 ^ 4 * w, max 0 (Fl - Fm) * 10 ^ 4 * w]"
  using assms
  by (simp add: compute_invalid_guess_penalty_def invalid_guess_def lookup_Some)

lemma example_trial_violating:
  "\<exists>free r p. descale_params (free_keys_of example_builder example_init)
       [0, 1, 1, 1, 1, 0, 0, 0, 0, 1, 0, 0, 0] = Inr free
     \<and> residual_cole example_builder (locked_params_of example_builder example_init ++ free)
         = Inr r
     \<and> compute_gaussian_prior [0, 1, 1, 1, 1, 0, 0, 0, 0, 1, 0, 0, 0]
         [0, 1, 1, 1, 1, 0, 0, 0, 1, 1, 0, 0, 0]
         [Fin 0, Fin 0, Fin 0, Fin 0, Fin 0, Fin 0, Fin 0, Fin 0, Fin 0, Fin 0, Fin 0, Fin 0, Fin 0]
         [Fin 1, Fin 1, Fin 1, Fin 1, Fin 1, Fin 10, Fin 10, Fin 10, Fin 1, Fin 1, Fin 1, Fin 10, Fin 1]
         400 5 = Inr p
     \<and> (locked_params_of example_builder example_init ++ free) ''Fh'' = Some 1
     \<and> (locked_params_of example_builder example_init ++ free) ''Fm'' = Some 10
     \<and> (locked_params_of example_builder example_init ++ free) ''Fl'' = Some 1"
  by (simp only: example_free_keys) (simp add: fit_eval_defs eval_defs)

lemma example_trial_valid:
  "\<exists>free r p. descale_params (free_keys_of example_builder example_init)
       [0, 1, 1, 1, 1, 0, 0, 0, 1, 1, 0, 0, 0] = Inr free
     \<and> residual_cole example_builder (locked_params_of example_builder example_init ++ free)
         = Inr r
     \<and> compute_gaussian_prior [0, 1, 1, 1, 1, 0, 0, 0, 1, 1, 0, 0, 0]
         [0, 1, 1, 1, 1, 0, 0, 0, 1, 1, 0, 0, 0]
         [Fin 0, Fin 0, Fin 0, Fin 0, Fin 0, Fin 0, Fin 0, Fin 0, Fin 0, Fin 0, Fin 0, Fin 0, Fin 0]
         [Fin 1, Fin 1, Fin 1, Fin 1, Fin 1, Fin 10, Fin 10, Fin 10, Fin 1, Fin 1, Fin 1, Fin 10, Fin 1]
         400 5 = Inr p
     \<and> (locked_params_of example_builder example_init ++ free) ''Fh'' = Some 10
     \<and> (locked_params_of example_builder example_init ++ free) ''Fm'' = Some 10
     \<and> (locked_params_of example_builder example_init ++ free) ''Fl'' = Some 1"
  by (simp only: example_free_keys) (simp add: fit_eval_defs eval_defs)



text \<open>
  C7 (as amended). At a trial vector where the residual function succeeds, the invalid
  region penalty is the vector \<open>[max(0, Fm - Fh), max(0, Fl - Fm)]\<close> times \<open>10\<^sup>4\<close>
  times the prior weight. With the Gaussian prior enabled the objective is the model
  residual, then the prior residual, then this penalty; with it disabled the objective is
  the model residual alone. The penalty is the zero vector whenever \<open>Fh \<ge> Fm \<ge> Fl\<close>,
  and for a prior weight other than 0 it is the zero vector only then.
\<close>

theorem invalid_region_penalty:
  assumes "descale_params free_keys x_free = Inr free_params"
    and "residual_func (locked_params ++ free_params) = Inr model_residual"
    and "(locked_params ++ free_params) ''Fh'' = Some Fh"
    and "(locked_params ++ free_params) ''Fm'' = Some Fm"
    and "(locked_params ++ free_params) ''Fl'' = Some Fl"
  shows "compute_invalid_guess_penalty (locked_params ++ free_params) prior_weight
           = Inr [max 0 (Fm - Fh) * 10 ^ 4 * prior_weight, max 0 (Fl - Fm) * 10 ^ 4 * prior_weight]
       \<and> (gaussian_prior fb
            \<and> compute_gaussian_prior x_free x0 lower upper prior_weight 5 = Inr prior_res
          \<longrightarrow> residual_wrapper fb residual_func free_keys locked_params x0 lower upper
                prior_weight x_free
              = Inr (model_residual @ prior_res
                     @ [max 0 (Fm - Fh) * 10 ^ 4 * prior_weight,
                        max 0 (Fl - Fm) * 10 ^ 4 * prior_weight]))
       \<and> (\<not> gaussian_prior fb
          \<longrightarrow> residual_wrapper fb residual_func free_keys locked_params x0 lower upper
                prior_weight x_free = Inr model_residual)
       \<and> (Fl \<le> Fm \<and> Fm \<le> Fh
          \<longrightarrow> [max 0 (Fm - Fh) * 10 ^ 4 * prior_weight, max 0 (Fl - Fm) * 10 ^ 4 * prior_weight]
              = [0, 0])
       \<and> (prior_weight \<noteq> 0
          \<longrightarrow> ([max 0 (Fm - Fh) * 10 ^ 4 * prior_weight,
                 max 0 (Fl - Fm) * 10 ^ 4 * prior_weight] = [0, 0]
               \<longleftrightarrow> Fl \<le> Fm \<and> Fm \<le> Fh))"
proof -
  note pen = invalid_penalty_value [OF assms(3,4,5), of prior_weight]
  have a: "gaussian_prior fb
            \<and> compute_gaussian_prior x_free x0 lower upper prior_weight 5 = Inr prior_res
          \<longrightarrow> residual_wrapper fb residual_func free_keys locked_params x0 lower upper
                prior_weight x_free
              = Inr (model_residual @ prior_res
                     @ [max 0 (Fm - Fh) * 10 ^ 4 * prior_weight,
                        max 0 (Fl - Fm) * 10 ^ 4 * prior_weight])"
    using assms(1,2) pen by (simp add: residual_wrapper_def)
  have b: "\<not> gaussian_prior fb
          \<longrightarrow> residual_wrapper fb residual_func free_keys locked_params x0 lower upper
                prior_weight x_free = Inr model_residual"
    using assms(1,2) by (simp add: residual_wrapper_def)
  have c: "Fl \<le> Fm \<and> Fm \<le> Fh
          \<longrightarrow> [max 0 (Fm - Fh) * 10 ^ 4 * prior_weight, max 0 (Fl - Fm) * 10 ^ 4 * prior_weight]
              = [0, 0]"
    by (simp add: max_def)
  have d: "prior_weight \<noteq> 0
          \<longrightarrow> ([max 0 (Fm - Fh) * 10 ^ 4 * prior_weight,
                 max 0 (Fl - Fm) * 10 ^ 4 * prior_weight] = [0, 0]
               \<longleftrightarrow> Fl \<le> Fm \<and> Fm \<le> Fh)"
    by (auto simp: max_def)
  from pen a b c d show ?thesis by blast
qed

theorem invalid_region_penalty_witness:
  "(\<exists>r p. residual_wrapper example_builder (residual_cole example_builder)
       (free_keys_of example_builder example_init)
       (locked_params_of example_builder example_init)
       [0, 1, 1, 1, 1, 0, 0, 0, 1, 1, 0, 0, 0]
       [Fin 0, Fin 0, Fin 0, Fin 0, Fin 0, Fin 0, Fin 0, Fin 0, Fin 0, Fin 0, Fin 0, Fin 0, Fin 0]
       [Fin 1, Fin 1, Fin 1, Fin 1, Fin 1, Fin 10, Fin 10, Fin 10, Fin 1, Fin 1, Fin 1, Fin 10, Fin 1]
       400 [0, 1, 1, 1, 1, 0, 0, 0, 0, 1, 0, 0, 0]
     = Inr (r @ p @ [36000000, 0])
    \<and> residual_wrapper (example_builder\<lparr>gaussian_prior := False\<rparr>)
       (residual_cole example_builder)
       (free_keys_of example_builder example_init)
       (locked_params_of example_builder example_init)
       [0, 1, 1, 1, 1, 0, 0, 0, 1, 1, 0, 0, 0]
       [Fin 0, Fin 0, Fin 0, Fin 0, Fin 0, Fin 0, Fin 0, Fin 0, Fin 0, Fin 0, Fin 0, Fin 0, Fin 0]
       [Fin 1, Fin 1, Fin 1, Fin 1, Fin 1, Fin 10, Fin 10, Fin 10, Fin 1, Fin 1, Fin 1, Fin 10, Fin 1]
       400 [0, 1, 1, 1, 1, 0, 0, 0, 0, 1, 0, 0, 0]
     = Inr r)
   \<and> (\<exists>r p. residual_wrapper example_builder (residual_cole example_builder)
       (free_keys_of example_builder example_init)
       (locked_params_of example_builder example_init)
       [0, 1, 1, 1, 1, 0, 0, 0, 1, 1, 0, 0, 0]
       [Fin 0, Fin 0, Fin 0, Fin 0, Fin 0, Fin 0, Fin 0, Fin 0, Fin 0, Fin 0, Fin 0, Fin 0, Fin 0]
       [Fin 1, Fin 1, Fin 1, Fin 1, Fin 1, Fin 10, Fin 10, Fin 10, Fin 1, Fin 1, Fin 1, Fin 10, Fin 1]
       400 [0, 1, 1, 1, 1, 0, 0, 0, 1, 1, 0, 0, 0]
     = Inr (r @ p @ [0, 0]))"
proof -
  let ?keys = "free_keys_of example_builder example_init"
  let ?locked = "locked_params_of example_builder example_init"
  let ?x0 = "[0, 1, 1, 1, 1, 0, 0, 0, 1, 1, 0, 0, 0] :: real list"
  let ?xt = "[0, 1, 1, 1, 1, 0, 0, 0, 0, 1, 0, 0, 0] :: real list"
  let ?lo = "[Fin 0, Fin 0, Fin 0, Fin 0, Fin 0, Fin 0, Fin 0, Fin 0, Fin 0, Fin 0, Fin 0, Fin 0,
    Fin 0]"
  let ?hi = "[Fin 1, Fin 1, Fin 1, Fin 1, Fin 1, Fin 10, Fin 10, Fin 10, Fin 1, Fin 1, Fin 1,
    Fin 10, Fin 1]"
  have g: "gaussian_prior example_builder"
    "\<not> gaussian_prior (example_builder\<lparr>gaussian_prior := False\<rparr>)"
    by (simp_all add: example_builder_def)
  from example_trial_violating obtain free r p where
    v: "descale_params ?keys ?xt = Inr free"
      "residual_cole example_builder (?locked ++ free) = Inr r"
      "compute_gaussian_prior ?xt ?x0 ?lo ?hi 400 5 = Inr p"
      "(?locked ++ free) ''Fh'' = Some 1"
      "(?locked ++ free) ''Fm'' = Some 10"
      "(?locked ++ free) ''Fl'' = Some 1"
    by (elim exE conjE)
  from example_trial_valid obtain free' r' p' where
    w: "descale_params ?keys ?x0 = Inr free'"
      "residual_cole example_builder (?locked ++ free') = Inr r'"
      "compute_gaussian_prior ?x0 ?x0 ?lo ?hi 400 5 = Inr p'"
      "(?locked ++ free') ''Fh'' = Some 10"
      "(?locked ++ free') ''Fm'' = Some 10"
      "(?locked ++ free') ''Fl'' = Some 1"
    by (elim exE conjE)
  note t1 = invalid_region_penalty [where residual_func = "residual_cole example_builder"
      and locked_params = ?locked and free_params = free and fb = example_builder
      and ?x0.0 = ?x0 and lower = ?lo and upper = ?hi and prior_weight = 400
      and prior_res = p, OF v(1) v(2) v(4) v(5) v(6)]
  note t2 = invalid_region_penalty [where residual_func = "residual_cole example_builder"
      and locked_params = ?locked and free_params = free
      and fb = "example_builder\<lparr>gaussian_prior := False\<rparr>"
      and ?x0.0 = ?x0 and lower = ?lo and upper = ?hi and prior_weight = 400
      and prior_res = p, OF v(1) v(2) v(4) v(5) v(6)]
  note t3 = invalid_region_penalty [where residual_func = "residual_cole example_builder"
      and locked_params = ?locked and free_params = free' and fb = example_builder
      and ?x0.0 = ?x0 and lower = ?lo and upper = ?hi and prior_weight = 400
      and prior_res = p', OF w(1) w(2) w(4) w(5) w(6)]
  from t1 g(1) v(3) have a: "residual_wrapper example_builder (residual_cole example_builder)
      ?keys ?locked ?x0 ?lo ?hi 400 ?xt = Inr (r @ p @ [36000000, 0])" by simp
  from t2 g(2) have b: "residual_wrapper (example_builder\<lparr>gaussian_prior := False\<rparr>)
      (residual_cole example_builder) ?keys ?locked ?x0 ?lo ?hi 400 ?xt = Inr r" by simp
  from t3 g(1) w(3) have c: "residual_wrapper example_builder (residual_cole example_builder)
      ?keys ?locked ?x0 ?lo ?hi 400 ?x0 = Inr (r' @ p' @ [0, 0])" by simp
  from a b c show ?thesis by blast
qed

text \<open>
  The claim as stated fails at the prior weight 0, the default of \<^verbatim>\<open>fit_model\<close>:
  the penalty is the zero vector although \<open>Fm = 2\<close> exceeds \<open>Fh = 1\<close>.
\<close>

theorem zero_weight_penalty_counterexample:
  "compute_invalid_guess_penalty (example_params(''Fh'' \<mapsto> 1)) 0 = Inr [0, 0]
   \<and> example_params ''Fm'' = Some 2
   \<and> (example_params(''Fh'' \<mapsto> 1)) ''Fh'' = Some 1
   \<and> \<not> ((2::real) \<le> 1)"
  by (simp add: compute_invalid_guess_penalty_def invalid_guess_def lookup_def
      example_params_def)

subsection \<open>The pulse derivation\<close>

lemma cumsum_from_length [simp]: "length (cumsum_from acc xs) = length xs"
  by (induction xs arbitrary: acc) simp_all

lemma cumsum_from_nth:
  "k < length xs \<Longrightarrow> cumsum_from acc xs ! k = acc + sum_list (take (Suc k) xs)"
proof (induction xs arbitrary: acc k)
  case Nil
  then show ?case by simp
next
  case (Cons x xs)
  then show ?case by (cases k) simp_all
qed

lemma rising_nth:
  assumes "k < length (0 # butlast (cumsum z))"
  shows "(0 # butlast (cumsum z)) ! k = sum_list (take k z)"
proof (cases k)
  case 0
  then show ?thesis by simp
next
  case (Suc j)
  with assms have j: "j < length z - 1" by (simp add: cumsum_def)
  then have "butlast (cumsum z) ! j = cumsum z ! j"
    by (simp add: nth_butlast cumsum_def)
  also have "\<dots> = sum_list (take (Suc j) z)"
    using j by (simp add: cumsum_def cumsum_from_nth)
  finally show ?thesis using Suc by simp
qed

lemma searchsorted_right_below:
  assumes "j < searchsorted_right a v"
  shows "a ! j \<le> v"
proof -
  from assms have j: "j < length (takeWhile (\<lambda>x. x \<le> v) a)"
    by (simp add: searchsorted_right_def)
  then have "takeWhile (\<lambda>x. x \<le> v) a ! j \<in> set (takeWhile (\<lambda>x. x \<le> v) a)"
    by (rule nth_mem)
  then have "takeWhile (\<lambda>x. x \<le> v) a ! j \<le> v"
    by (auto dest: set_takeWhileD)
  with j show ?thesis by (simp add: takeWhile_nth)
qed

lemma searchsorted_right_le: "searchsorted_right a v \<le> length a"
  by (simp add: searchsorted_right_def length_takeWhile_le)

lemma searchsorted_right_above:
  assumes "searchsorted_right a v < length a"
  shows "v < a ! searchsorted_right a v"
  using assms nth_length_takeWhile [of "\<lambda>x. x \<le> v" a]
  by (simp add: searchsorted_right_def)

lemma time_axis_index:
  assumes "0 < dt" and "j < n"
  shows "j < searchsorted_right (map (\<lambda>i. real i * dt) [0..<n]) v \<longleftrightarrow> real j * dt \<le> v"
proof
  let ?t = "map (\<lambda>i. real i * dt) [0..<n]"
  assume "j < searchsorted_right ?t v"
  from searchsorted_right_below [OF this] assms(2) show "real j * dt \<le> v" by simp
next
  let ?t = "map (\<lambda>i. real i * dt) [0..<n]"
  let ?r = "searchsorted_right ?t v"
  assume le: "real j * dt \<le> v"
  show "j < ?r"
  proof (rule ccontr)
    assume "\<not> j < ?r"
    then have r: "?r \<le> j" by simp
    with assms(2) have "?r < length ?t" by simp
    from searchsorted_right_above [OF this] r assms(2) have "v < real ?r * dt" by simp
    moreover from r assms(1) have "real ?r * dt \<le> real j * dt" by simp
    ultimately show False using le by simp
  qed
qed

lemma example_pulse:
  "pulse_from_impulse [1, 1, 1, 1, 1, 1, 1, 1, 1, 1, 1, 1, 1, 1, 1, 1] (1 / 4) =
     Inr ([0, 1 / 4, 1 / 2, 3 / 4, 1, 5 / 4, 3 / 2, 7 / 4, 2, 9 / 4, 5 / 2, 11 / 4, 3, 13 / 4, 7 / 2, 15 / 4],
          [9, 8, 7, 6, 5, 4, 3, 2, 1, 0, - 1, - 2, - 3, - 4, - 5, - 6],
          [0, 1, 2, 3, 4, 5, 6, 7, 8, 9, 10, 11, 12, 13, 14, 15])"
  by (simp add: pulse_from_impulse_def cumsum_def searchsorted_right_def item_def Let_def
      upt_rec)

text \<open>
  C5 (as amended). From the filtered impulse sequence \<open>z\<close> and a positive time step,
  the rising response has first sample 0 and \<open>k\<close>-th sample the sum of the first
  \<open>k\<close> impulse samples, and for every index \<open>i\<close> the falling response is
  \<open>volt_down[i] = volt_up[r] - volt_up[i]\<close>, where the reference index \<open>r\<close> is the
  number of time samples that do not exceed 2 (\<^verbatim>\<open>searchsorted\<close> with
  \<^verbatim>\<open>side="right"\<close>). So \<open>volt_up[r]\<close> is the sum of all impulse samples whose time
  is at most 2, and when the time axis has a sample at exactly 2, at index \<open>m\<close>, the
  reference is the next sample, \<open>r = m + 1\<close>.
\<close>

theorem pulse_responses:
  assumes "pulse_from_impulse z dt = Inr (t, volt_down, volt_up)" and "0 < dt"
  shows "t = map (\<lambda>i. real i * dt) [0..<length z]
       \<and> volt_up ! 0 = 0
       \<and> (\<forall>k < length volt_up. volt_up ! k = sum_list (take k z))
       \<and> length volt_down = length volt_up
       \<and> searchsorted_right t 2 < length volt_up
       \<and> (\<forall>i < length volt_up.
            volt_down ! i = volt_up ! searchsorted_right t 2 - volt_up ! i)
       \<and> (\<forall>j < length t. j < searchsorted_right t 2 \<longleftrightarrow> t ! j \<le> 2)
       \<and> volt_up ! searchsorted_right t 2 = sum_list (take (searchsorted_right t 2) z)
       \<and> (\<forall>m < length t. t ! m = 2 \<longrightarrow> searchsorted_right t 2 = Suc m)"
proof -
  let ?t = "map (\<lambda>i. real i * dt) [0..<length z]"
  let ?up = "0 # butlast (cumsum z)"
  let ?r = "searchsorted_right ?t 2"
  from assms(1) have t: "t = ?t" and up: "volt_up = ?up"
    and r: "?r < length ?up"
    and down: "volt_down = map (\<lambda>v. ?up ! ?r - v) ?up"
    by (auto simp: pulse_from_impulse_def Let_def item_def split: if_splits)
  have idx: "\<forall>j < length ?t. j < ?r \<longleftrightarrow> ?t ! j \<le> 2"
    using time_axis_index [OF assms(2), of _ "length z" 2] by simp
  have exact: "\<forall>m < length ?t. ?t ! m = 2 \<longrightarrow> ?r = Suc m"
  proof (intro allI impI)
    fix m assume m: "m < length ?t" and two: "?t ! m = 2"
    with idx have lo: "m < ?r" by simp
    have "\<not> Suc m < ?r"
    proof
      assume s: "Suc m < ?r"
      with searchsorted_right_le [of ?t 2] have "Suc m < length ?t" by simp
      with idx s have "?t ! Suc m \<le> 2" by blast
      moreover from \<open>Suc m < length ?t\<close> m two assms(2) have "2 < ?t ! Suc m"
        by (simp add: algebra_simps)
      ultimately show False by simp
    qed
    with lo show "?r = Suc m" by simp
  qed
  from r have nth: "\<forall>k < length ?up. ?up ! k = sum_list (take k z)"
    using rising_nth by blast
  from nth r have ref: "?up ! ?r = sum_list (take ?r z)" by blast
  have dn: "\<forall>i < length ?up. map (\<lambda>v. ?up ! ?r - v) ?up ! i = ?up ! ?r - ?up ! i"
    by (intro allI impI) (rule nth_map)
  have z0: "?up ! 0 = 0" by simp
  have len: "length (map (\<lambda>v. ?up ! ?r - v) ?up) = length ?up" by (rule length_map)
  show ?thesis
    unfolding t up down
    using r idx exact nth ref dn z0 len by blast
qed

theorem pulse_responses_witness:
  "pulse_from_impulse [1, 1, 1, 1, 1, 1, 1, 1, 1, 1, 1, 1, 1, 1, 1, 1] (1 / 4) =
     Inr ([0, 1 / 4, 1 / 2, 3 / 4, 1, 5 / 4, 3 / 2, 7 / 4, 2, 9 / 4, 5 / 2, 11 / 4, 3, 13 / 4, 7 / 2, 15 / 4],
          [9, 8, 7, 6, 5, 4, 3, 2, 1, 0, - 1, - 2, - 3, - 4, - 5, - 6],
          [0, 1, 2, 3, 4, 5, 6, 7, 8, 9, 10, 11, 12, 13, 14, 15])
   \<and> searchsorted_right [0, 1 / 4, 1 / 2, 3 / 4, 1, 5 / 4, 3 / 2, 7 / 4, 2, 9 / 4, 5 / 2, 11 / 4, 3, 13 / 4, 7 / 2, 15 / 4] 2 = 9
   \<and> ([9, 8, 7, 6, 5, 4, 3, 2, 1, 0, - 1, - 2, - 3, - 4, - 5, - 6] :: real list) ! 8
       = [0, 1, 2, 3, 4, 5, 6, 7, 8, 9, 10, 11, 12, 13, 14, 15] ! 9 - [0, 1, 2, 3, 4, 5, 6, 7, 8, 9, 10, 11, 12, 13, 14, 15] ! 8"
proof -
  have dt: "(0::real) < 1 / 4" by simp
  let ?t = "[0, 1 / 4, 1 / 2, 3 / 4, 1, 5 / 4, 3 / 2, 7 / 4, 2, 9 / 4, 5 / 2, 11 / 4, 3, 13 / 4, 7 / 2, 15 / 4] :: real list"
  let ?up = "[0, 1, 2, 3, 4, 5, 6, 7, 8, 9, 10, 11, 12, 13, 14, 15] :: real list"
  let ?down = "[9, 8, 7, 6, 5, 4, 3, 2, 1, 0, - 1, - 2, - 3, - 4, - 5, - 6] :: real list"
  note p = pulse_responses [OF example_pulse dt]
  from p have ex: "\<forall>m < length ?t. ?t ! m = 2 \<longrightarrow> searchsorted_right ?t 2 = Suc m"
    by (elim conjE)
  from p have dn: "\<forall>i < length ?up. ?down ! i = ?up ! searchsorted_right ?t 2 - ?up ! i"
    by (elim conjE)
  from ex [rule_format, of 8] have r: "searchsorted_right ?t 2 = 9" by simp
  from dn [rule_format, of 8] have "?down ! 8 = ?up ! searchsorted_right ?t 2 - ?up ! 8"
    by simp
  with r example_pulse show ?thesis by simp
qed

text \<open>
  The claim as stated takes the rising response at the time 2 as the reference. On a
  time axis with the step 1/4 the sample at time 2 has index 8, where the rising
  response is 8, but the falling response at index 0 is 9, and at time 2 it is 1, not 0.
\<close>

theorem pulse_reference_counterexample:
  "pulse_from_impulse [1, 1, 1, 1, 1, 1, 1, 1, 1, 1, 1, 1, 1, 1, 1, 1] (1 / 4) =
     Inr ([0, 1 / 4, 1 / 2, 3 / 4, 1, 5 / 4, 3 / 2, 7 / 4, 2, 9 / 4, 5 / 2, 11 / 4, 3, 13 / 4, 7 / 2, 15 / 4],
          [9, 8, 7, 6, 5, 4, 3, 2, 1, 0, - 1, - 2, - 3, - 4, - 5, - 6],
          [0, 1, 2, 3, 4, 5, 6, 7, 8, 9, 10, 11, 12, 13, 14, 15])
   \<and> ([0, 1 / 4, 1 / 2, 3 / 4, 1, 5 / 4, 3 / 2, 7 / 4, 2, 9 / 4, 5 / 2, 11 / 4, 3, 13 / 4, 7 / 2, 15 / 4] :: real list) ! 8 = 2
   \<and> ([9, 8, 7, 6, 5, 4, 3, 2, 1, 0, - 1, - 2, - 3, - 4, - 5, - 6] :: real list) ! 0
       \<noteq> [0, 1, 2, 3, 4, 5, 6, 7, 8, 9, 10, 11, 12, 13, 14, 15] ! 8 - [0, 1, 2, 3, 4, 5, 6, 7, 8, 9, 10, 11, 12, 13, 14, 15] ! 0
   \<and> ([9, 8, 7, 6, 5, 4, 3, 2, 1, 0, - 1, - 2, - 3, - 4, - 5, - 6] :: real list) ! 8 \<noteq> 0"
  using example_pulse by simp

subsection \<open>The spectrum handed to the inverse transform\<close>

lemma length_linspace [simp]: "length (linspace a b n) = n"
  by (simp add: linspace_def)

lemma linspace_nonempty [simp]: "linspace a b n = [] \<longleftrightarrow> n = 0"
  by (simp add: linspace_def)

lemma linspace_nonneg:
  assumes "0 \<le> a" "a \<le> b" "x \<in> set (linspace a b n)"
  shows "0 \<le> x"
proof -
  from assms(3) have "x \<in> (\<lambda>i. a + real i * ((b - a) / real (n - 1))) ` set [0..<n]"
    unfolding linspace_def set_map .
  then obtain i where x: "x = a + real i * ((b - a) / real (n - 1))" by (rule imageE)
  from assms(2) have "0 \<le> real i * ((b - a) / real (n - 1))" by simp
  with assms(1) have "0 \<le> a + real i * ((b - a) / real (n - 1))"
    by (rule add_nonneg_nonneg)
  then show ?thesis unfolding x .
qed

lemma run_rock_length:
  "run_rock tp c params fs old = Inr (z, c') \<Longrightarrow> length z = length fs"
  by (auto simp: run_rock_def rbind_eq_Inr dest: mapM_length)

lemma time_domain_grid_Inr:
  assumes "time_domain_grid tdb = Inr (dt, freq_even)"
  shows "freq_even = (linspace 0 (real (N tdb div 2) * (1 / real (T tdb))) (N tdb div 2 + 1))
                       [0 := 1 / 1000]"
    and "dt = real (T tdb) / real (N tdb)"
  using assms
  by (auto simp: time_domain_grid_def Let_def rbind_eq_Inr py_div_def set_item_def
      split: if_splits)

lemma example_calc:
  "\<exists>c1. calculate_secondary_parameters fresh_circuit example_params = Inr c1
     \<and> q c1 ''Qm'' = Some (1 / 2) \<and> q c1 ''Ql'' = Some (1 / 2)"
  by (simp add: eval_defs)

lemma example_rock_at:
  "q c1 ''Qm'' = Some (1 / 2) \<Longrightarrow> q c1 ''Ql'' = Some (1 / 2) \<Longrightarrow> 0 \<le> f
     \<Longrightarrow> rock_at Series c1 example_params f = Inr 2"
  by (simp add: rock_at_def series_rock_at_def lookup_def cpe_flat parallel_def py_cdiv_def
      example_params_def)

lemma example_rock:
  assumes "\<forall>f \<in> set fs. 0 \<le> f"
  shows "\<exists>c1. run_rock Series fresh_circuit example_params fs False = Inr (map (\<lambda>f. 2) fs, c1)"
proof -
  from example_calc obtain c1 where
    c: "calculate_secondary_parameters fresh_circuit example_params = Inr c1
     \<and> q c1 ''Qm'' = Some (1 / 2) \<and> q c1 ''Ql'' = Some (1 / 2)" ..
  have "mapM (rock_at Series c1 example_params) fs = Inr (map (\<lambda>f. 2) fs)"
    using assms c by (intro mapM_all_Inr example_rock_at) auto
  with c have "run_rock Series fresh_circuit example_params fs False
      = Inr (map (\<lambda>f. 2) fs, c1)"
    by (simp add: run_rock_def flip_rinf_def refresh_secondary_def fresh_circuit_def)
  then show ?thesis ..
qed

text \<open>
  C6. Whenever \<^verbatim>\<open>run_time_domain\<close> gets as far as the inverse transform, for any
  parameter set, topology and circuit state: the frequency grid is the evenly spaced grid
  of \<open>N div 2 + 1\<close> points from 0 (8193 points for \<open>N = 2\<^sup>14\<close>) with its first
  bin replaced by 0.001; the rock impedance is evaluated on this grid; the first bin of
  the resulting array is replaced by its real part, so that its imaginary part is exactly
  0; and this array is the argument of the inverse real transform.
\<close>

theorem time_domain_dc_bin:
  assumes "time_domain_spectrum tdb tp c params = Inr (dt, freq_even, z_complex, c')"
  shows "freq_even = (linspace 0 (real (N tdb div 2) * (1 / real (T tdb))) (N tdb div 2 + 1))
                       [0 := 1 / 1000]
       \<and> length freq_even = N tdb div 2 + 1
       \<and> (N tdb = 2 ^ 14 \<longrightarrow> length freq_even = 8193)
       \<and> freq_even ! 0 = 1 / 1000
       \<and> (\<exists>z_raw. run_rock tp c params freq_even False = Inr (z_raw, c')
             \<and> length z_raw = length freq_even
             \<and> z_complex = z_raw[0 := complex_of_real (Re (z_raw ! 0))])
       \<and> Im (z_complex ! 0) = 0
       \<and> run_time_domain tdb d tp c params =
           rbind (irfft d z_complex) (\<lambda>z_inversefft.
           rbind (filtfilt d z_inversefft) (\<lambda>z_filtered.
           rbind (pulse_from_impulse z_filtered dt) (time_domain_output tdb freq_even c')))"
proof -
  from assms obtain z_raw where
    g: "time_domain_grid tdb = Inr (dt, freq_even)"
    and rock: "run_rock tp c params freq_even False = Inr (z_raw, c')"
    and ne: "0 < length z_raw"
    and zc: "z_complex = z_raw[0 := complex_of_real (Re (z_raw ! 0))]"
    by (auto simp: time_domain_spectrum_def rbind_eq_Inr item_def set_item_def
        split: if_splits prod.splits)
  note fe = time_domain_grid_Inr(1) [OF g]
  have len: "length freq_even = N tdb div 2 + 1" by (simp add: fe)
  have first: "freq_even ! 0 = 1 / 1000" by (simp add: fe)
  have lz: "length z_raw = length freq_even" using rock by (rule run_rock_length)
  have im: "Im (z_complex ! 0) = 0" using ne by (simp add: zc)
  have run: "run_time_domain tdb d tp c params =
           rbind (irfft d z_complex) (\<lambda>z_inversefft.
           rbind (filtfilt d z_inversefft) (\<lambda>z_filtered.
           rbind (pulse_from_impulse z_filtered dt) (time_domain_output tdb freq_even c')))"
    using assms by (simp add: run_time_domain_def fourier_transform_pulse_def rbind_assoc)
  from fe len first rock lz zc im run show ?thesis by auto
qed

theorem time_domain_dc_bin_witness:
  "\<exists>freq_even z_complex c'.
      time_domain_spectrum \<lparr>N = 2 ^ 14, T = 4, integral_variables = Map.empty\<rparr>
        Series fresh_circuit example_params = Inr (1 / 4096, freq_even, z_complex, c')
    \<and> length freq_even = 8193 \<and> freq_even ! 0 = 1 / 1000 \<and> Im (z_complex ! 0) = 0"
proof -
  let ?tdb = "\<lparr>N = 2 ^ 14, T = 4, integral_variables = Map.empty\<rparr>"
  let ?grid = "(linspace 0 2048 8193)[0 := 1 / 1000]"
  have g: "time_domain_grid ?tdb = Inr (1 / 4096, ?grid)"
    by (simp add: time_domain_grid_def py_div_def set_item_def Let_def)
  have "\<forall>f \<in> set ?grid. 0 \<le> f"
  proof
    fix f assume "f \<in> set ?grid"
    then have "f \<in> insert (1 / 1000) (set (linspace 0 2048 8193))"
      using set_update_subset_insert by fastforce
    then show "0 \<le> f" using linspace_nonneg [of 0 2048 f 8193] by auto
  qed
  from example_rock [OF this] obtain c1 where
    "run_rock Series fresh_circuit example_params ?grid False = Inr (map (\<lambda>f. 2) ?grid, c1)" ..
  with g have s: "time_domain_spectrum ?tdb Series fresh_circuit example_params =
      Inr (1 / 4096, ?grid, (map (\<lambda>f. 2) ?grid)[0 := complex_of_real (Re 2)], c1)"
    by (simp add: time_domain_spectrum_def item_def set_item_def)
  from time_domain_dc_bin [OF s] have
    "length ?grid = 8193 \<and> ?grid ! 0 = 1 / 1000
     \<and> Im ((map (\<lambda>f. 2) ?grid)[0 := complex_of_real (Re 2)] ! 0) = 0"
    by simp
  with s show ?thesis by blast
qed

subsection \<open>The reference point of a manual evaluation\<close>

lemma run_model_length:
  assumes "run_model tp c params fs old = Inr ((z, rock), c')"
  shows "length z = length fs"
proof (cases tp)
  case Series
  with assms obtain f where "mapM f [0..<length fs] = Inr z"
    by (auto simp: run_model_def run_model_series_def rbind_eq_Inr split: prod.splits)
  from mapM_length [OF this] show ?thesis by simp
next
  case Parallel
  with assms obtain f where "mapM f [0..<length fs] = Inr z"
    by (auto simp: run_model_def run_model_parallel_def Let_def rbind_eq_Inr split: prod.splits)
  from mapM_length [OF this] show ?thesis by simp
qed

lemma example_reference_point:
  "\<exists>rock c1. run_model Series cached_circuit
       (example_params(''Re'' \<mapsto> 10 ^ 8, ''Qe'' \<mapsto> 10 ^ 2)) [1 / 10] True
     = Inr (([Complex (90200000009 / 20000000002) (pi / 5)], rock), c1)"
  by (simp add: eval_defs cached_circuit_def complex_eq_iff)

lemma example_special:
  "\<exists>r. calculate_special_frequencies Series cached_circuit Map.empty example_params = Inr r"
  by (simp add: calculate_special_frequencies_def get_special_freqs_def eval_defs
      cached_circuit_def)

text \<open>
  C10. Whenever \<^verbatim>\<open>_calculate_special_frequencies\<close> returns, for either topology:
  the fourth special frequency is the fixed point 0.1 Hz; the impedance there comes from
  \<^verbatim>\<open>run_model\<close> on the parameters with Re overridden to \<open>10\<^sup>8\<close> and Qe to
  \<open>10\<^sup>2\<close> (with the cached secondary parameters); the real part reported for it is
  the real part of that evaluation, the imaginary part reported for it is 0 whatever the
  evaluation returns, and \<open>R01\<close> is set to the same real part.
\<close>

theorem reference_point_without_electrode:
  assumes "calculate_special_frequencies tp c calculator_variables params
             = Inr ((special_freq, spec_zr, spec_zi), calculator_variables', c')"
  shows "\<exists>fsf_z rock c1.
           run_model tp c (params(''Re'' \<mapsto> 10 ^ 8, ''Qe'' \<mapsto> 10 ^ 2)) [1 / 10] True
             = Inr ((fsf_z, rock), c1)
         \<and> length fsf_z = 1
         \<and> length special_freq = 4 \<and> length spec_zr = 4 \<and> length spec_zi = 4
         \<and> special_freq ! 3 = 1 / 10
         \<and> spec_zr ! 3 = Re (fsf_z ! 0)
         \<and> spec_zi ! 3 = 0
         \<and> calculator_variables' = calculator_variables(''R01'' \<mapsto> Re (fsf_z ! 0))"
proof -
  let ?pne = "params(''Re'' \<mapsto> 10 ^ 8, ''Qe'' \<mapsto> 10 ^ 2)"
  from assms obtain dyn fsf_z rock1 c1 dsf_z rock2 where
    dyn: "get_special_freqs params = Inr dyn"
    and fsf: "run_model tp c ?pne [1 / 10] True = Inr ((fsf_z, rock1), c1)"
    and dsf: "run_model tp c1 params dyn True = Inr ((dsf_z, rock2), c')"
    and sf: "special_freq = dyn @ [1 / 10]"
    and zr: "spec_zr = map Re dsf_z @ map Re fsf_z"
    and zi: "spec_zi = map Im dsf_z @ map (\<lambda>r. 0) (map Re fsf_z)"
    and cv: "calculator_variables' = calculator_variables(''R01'' \<mapsto> map Re fsf_z ! 0)"
    by (auto simp: calculate_special_frequencies_def Let_def rbind_eq_Inr item_def
        split: prod.splits if_splits)
  from dyn have ld: "length dyn = 3"
    by (auto simp: get_special_freqs_def rbind_eq_Inr)
  from run_model_length [OF fsf] have lf: "length fsf_z = 1" by simp
  from run_model_length [OF dsf] ld have lz: "length dsf_z = 3" by simp
  from lf obtain z0 where z0: "fsf_z = [z0]" by (cases fsf_z) auto
  have "length special_freq = 4" "length spec_zr = 4" "length spec_zi = 4"
    "special_freq ! 3 = 1 / 10" "spec_zr ! 3 = Re (fsf_z ! 0)" "spec_zi ! 3 = 0"
    "calculator_variables' = calculator_variables(''R01'' \<mapsto> Re (fsf_z ! 0))"
    using ld lz by (simp_all add: sf zr zi cv z0 nth_append)
  with fsf lf show ?thesis by blast
qed

theorem reference_point_without_electrode_witness:
  "\<exists>special_freq spec_zr spec_zi calculator_variables' c'.
      calculate_special_frequencies Series cached_circuit Map.empty example_params
        = Inr ((special_freq, spec_zr, spec_zi), calculator_variables', c')
    \<and> special_freq ! 3 = 1 / 10
    \<and> spec_zr ! 3 = 90200000009 / 20000000002
    \<and> spec_zi ! 3 = 0
    \<and> calculator_variables' ''R01'' = Some (90200000009 / 20000000002)
    \<and> (\<exists>rock c1. run_model Series cached_circuit
          (example_params(''Re'' \<mapsto> 10 ^ 8, ''Qe'' \<mapsto> 10 ^ 2)) [1 / 10] True
        = Inr (([Complex (90200000009 / 20000000002) (pi / 5)], rock), c1))"
proof -
  from example_special obtain sf zr zi cv' c' where
    s: "calculate_special_frequencies Series cached_circuit Map.empty example_params
        = Inr ((sf, zr, zi), cv', c')"
    by (metis prod.exhaust)
  from reference_point_without_electrode [OF s] obtain fsf_z rock c1 where
    m: "run_model Series cached_circuit
          (example_params(''Re'' \<mapsto> 10 ^ 8, ''Qe'' \<mapsto> 10 ^ 2)) [1 / 10] True
        = Inr ((fsf_z, rock), c1)"
    and v: "sf ! 3 = 1 / 10" "zr ! 3 = Re (fsf_z ! 0)" "zi ! 3 = 0"
      "cv' = Map.empty(''R01'' \<mapsto> Re (fsf_z ! 0))"
    by blast
  from example_reference_point m
  have "fsf_z = [Complex (90200000009 / 20000000002) (pi / 5)]" by auto
  with s m v example_reference_point show ?thesis by simp
qed

end
